theory Spec2Isabelle
  imports Complex_Main
begin

section \<open>Python values\<close>

text \<open>
  The backend (\<open>src/backend/main.py\<close>) passes job postings around as Python
  dictionaries from field names to values of any type. A value is modelled by
  \<open>pyval\<close>; a float is NaN, an infinity or a finite number (a rational here: only its
  order and its truth value are ever used). A NaN carries the identity of its float
  object: it is unequal to itself, and a set finds it by identity only. Strings are lists
  of characters with code points below 256, and the text functions below are Python's on
  such text; containers as field values are left out.
\<close>

datatype error = ValueError | TypeError | IndexError | External string

datatype pyfloat = FNaN nat | FNegInf | FFin rat | FPosInf

fun is_nan :: "pyfloat \<Rightarrow> bool" where
  "is_nan (FNaN i) = True"
| "is_nan f = False"

record pydatetime =
  dt_year :: nat
  dt_month :: nat
  dt_day :: nat
  dt_hour :: nat
  dt_minute :: nat
  dt_second :: nat
  dt_microsecond :: nat

datatype pyval =
    PNone
  | PBool bool
  | PInt int
  | PFloat pyfloat
  | PStr string
  | PDatetime pydatetime

type_synonym job = "string \<rightharpoonup> pyval"

subsection \<open>Text\<close>

definition is_digit :: "char \<Rightarrow> bool" where
  "is_digit c = (48 \<le> (of_char c :: nat) \<and> (of_char c :: nat) \<le> 57)"

definition digit_val :: "char \<Rightarrow> nat" where
  "digit_val c = of_char c - 48"

definition digit_char :: "nat \<Rightarrow> char" where
  "digit_char d = ''0123456789'' ! d"

definition is_space :: "char \<Rightarrow> bool" where
  \<comment> \<open>\<open>str.isspace\<close> on the code points below 256\<close>
  "is_space c = (let n = (of_char c :: nat) in
     (9 \<le> n \<and> n \<le> 13) \<or> (28 \<le> n \<and> n \<le> 32) \<or> n = 133 \<or> n = 160)"

definition upper_chars :: string where
  \<comment> \<open>the capitals below 256: A to Z, and 0xC0 to 0xDE without the sign 0xD7\<close>
  "upper_chars =
     ''ABCDEFGHIJKLMNOPQRSTUVWXYZ''
     @ [CHR 0xC0, CHR 0xC1, CHR 0xC2, CHR 0xC3, CHR 0xC4, CHR 0xC5, CHR 0xC6, CHR 0xC7,
        CHR 0xC8, CHR 0xC9, CHR 0xCA, CHR 0xCB, CHR 0xCC, CHR 0xCD, CHR 0xCE, CHR 0xCF,
        CHR 0xD0, CHR 0xD1, CHR 0xD2, CHR 0xD3, CHR 0xD4, CHR 0xD5, CHR 0xD6,
        CHR 0xD8, CHR 0xD9, CHR 0xDA, CHR 0xDB, CHR 0xDC, CHR 0xDD, CHR 0xDE]"

definition lower_chars :: string where
  \<comment> \<open>their small letters, each 32 above its capital\<close>
  "lower_chars =
     ''abcdefghijklmnopqrstuvwxyz''
     @ [CHR 0xE0, CHR 0xE1, CHR 0xE2, CHR 0xE3, CHR 0xE4, CHR 0xE5, CHR 0xE6, CHR 0xE7,
        CHR 0xE8, CHR 0xE9, CHR 0xEA, CHR 0xEB, CHR 0xEC, CHR 0xED, CHR 0xEE, CHR 0xEF,
        CHR 0xF0, CHR 0xF1, CHR 0xF2, CHR 0xF3, CHR 0xF4, CHR 0xF5, CHR 0xF6,
        CHR 0xF8, CHR 0xF9, CHR 0xFA, CHR 0xFB, CHR 0xFC, CHR 0xFD, CHR 0xFE]"

definition lower_char :: "char \<Rightarrow> char" where
  "lower_char c =
     (case map_of (zip upper_chars lower_chars) c of
        Some l \<Rightarrow> l
      | None \<Rightarrow> c)"

definition lower :: "string \<Rightarrow> string" where
  "lower s = map lower_char s"

definition strip_with :: "(char \<Rightarrow> bool) \<Rightarrow> string \<Rightarrow> string" where
  \<comment> \<open>the text without the leading and trailing characters that satisfy \<open>sp\<close>\<close>
  "strip_with sp s = rev (dropWhile sp (rev (dropWhile sp s)))"

definition strip :: "string \<Rightarrow> string" where
  \<comment> \<open>\<open>str.strip()\<close>\<close>
  "strip s = strip_with is_space s"

fun startswith :: "string \<Rightarrow> string \<Rightarrow> bool" where
  \<comment> \<open>\<open>startswith s p\<close> is \<open>s.startswith(p)\<close>\<close>
  "startswith s [] = True"
| "startswith [] (p # ps) = False"
| "startswith (c # cs) (p # ps) = (c = p \<and> startswith cs ps)"

definition endswith :: "string \<Rightarrow> string \<Rightarrow> bool" where
  "endswith s p = startswith (rev s) (rev p)"

fun str_in :: "string \<Rightarrow> string \<Rightarrow> bool" where
  \<comment> \<open>\<open>str_in sub s\<close> is \<open>sub in s\<close>\<close>
  "str_in sub [] = (sub = [])"
| "str_in sub (c # cs) = (startswith (c # cs) sub \<or> str_in sub cs)"

function dec :: "nat \<Rightarrow> string" where
  \<comment> \<open>the decimal digits of a natural number\<close>
  "dec n = (if n < 10 then [digit_char n] else dec (n div 10) @ [digit_char (n mod 10)])"
  by pat_completeness auto
termination
  by (relation "measure id") auto

declare dec.simps [simp del]

fun py_join :: "string \<Rightarrow> string list \<Rightarrow> string" where
  \<comment> \<open>\<open>py_join sep xs\<close> is \<open>sep.join(xs)\<close>\<close>
  "py_join sep [] = []"
| "py_join sep [x] = x"
| "py_join sep (x # y # ys) = x @ sep @ py_join sep (y # ys)"

definition pad :: "nat \<Rightarrow> nat \<Rightarrow> string" where
  \<comment> \<open>\<open>pad w n\<close> is \<open>"%0wd" % n\<close>\<close>
  "pad w n = replicate (w - length (dec n)) (CHR ''0'') @ dec n"

definition iso_date :: "pydatetime \<Rightarrow> string" where
  "iso_date d = pad 4 (dt_year d) @ ''-'' @ pad 2 (dt_month d) @ ''-'' @ pad 2 (dt_day d)"

definition iso_time :: "pydatetime \<Rightarrow> string" where
  "iso_time d =
     pad 2 (dt_hour d) @ '':'' @ pad 2 (dt_minute d) @ '':'' @ pad 2 (dt_second d)
     @ (if dt_microsecond d = 0 then [] else ''.'' @ pad 6 (dt_microsecond d))"

definition isoformat :: "pydatetime \<Rightarrow> string" where
  \<comment> \<open>\<open>datetime.isoformat()\<close> of a datetime without time zone\<close>
  "isoformat d = iso_date d @ ''T'' @ iso_time d"

subsection \<open>Truth values, \<open>str()\<close>, equality and order\<close>

fun truthy :: "pyval \<Rightarrow> bool" where
  "truthy PNone = False"
| "truthy (PBool b) = b"
| "truthy (PInt n) = (n \<noteq> 0)"
| "truthy (PFloat f) = (f \<noteq> FFin 0)"
| "truthy (PStr s) = (s \<noteq> [])"
| "truthy (PDatetime d) = True"

definition get_truthy :: "job \<Rightarrow> string \<Rightarrow> bool" where
  \<comment> \<open>the truth value of \<open>job.get(key)\<close>\<close>
  "get_truthy job key = (case job key of None \<Rightarrow> False | Some v \<Rightarrow> truthy v)"

text \<open>
  \<open>str(v)\<close>. The text of a finite float is the interpreter's shortest round-trip
  representation; it is taken as the parameter \<open>fr\<close> of every function that calls
  \<open>str\<close> on a field.
\<close>

fun py_str :: "(rat \<Rightarrow> string) \<Rightarrow> pyval \<Rightarrow> string" where
  "py_str fr PNone = ''None''"
| "py_str fr (PBool b) = (if b then ''True'' else ''False'')"
| "py_str fr (PInt n) = (if n < 0 then ''-'' @ dec (nat (- n)) else dec (nat n))"
| "py_str fr (PFloat (FNaN i)) = ''nan''"
| "py_str fr (PFloat FNegInf) = ''-inf''"
| "py_str fr (PFloat FPosInf) = ''inf''"
| "py_str fr (PFloat (FFin r)) = fr r"
| "py_str fr (PStr s) = s"
| "py_str fr (PDatetime d) = iso_date d @ '' '' @ iso_time d"

definition get_text :: "(rat \<Rightarrow> string) \<Rightarrow> job \<Rightarrow> string \<Rightarrow> string" where
  \<comment> \<open>\<open>str(job.get(key, "")).lower()\<close>\<close>
  "get_text fr job key = lower (py_str fr (case job key of None \<Rightarrow> PStr [] | Some v \<Rightarrow> v))"

fun num_of :: "pyval \<Rightarrow> pyfloat option" where
  \<comment> \<open>the number a bool, an int or a float stands for in a comparison\<close>
  "num_of (PBool b) = Some (FFin (if b then 1 else 0))"
| "num_of (PInt n) = Some (FFin (of_int n))"
| "num_of (PFloat f) = Some f"
| "num_of v = None"

fun f_gt :: "pyfloat \<Rightarrow> pyfloat \<Rightarrow> bool" where
  \<comment> \<open>\<open>f_gt a b\<close> is \<open>a > b\<close>; every comparison with NaN is false\<close>
  "f_gt (FNaN i) b = False"
| "f_gt a (FNaN i) = False"
| "f_gt FNegInf b = False"
| "f_gt a FNegInf = True"
| "f_gt a FPosInf = False"
| "f_gt FPosInf b = True"
| "f_gt (FFin x) (FFin y) = (y < x)"

definition f_ge :: "pyfloat \<Rightarrow> pyfloat \<Rightarrow> bool" where
  "f_ge a b = (\<not> is_nan a \<and> \<not> is_nan b \<and> (a = b \<or> f_gt a b))"

definition py_max :: "pyfloat \<Rightarrow> pyfloat \<Rightarrow> pyfloat" where
  \<comment> \<open>\<open>max(a, b)\<close>: the first argument unless the second is greater\<close>
  "py_max a b = (if f_gt b a then b else a)"

definition py_eq :: "pyval \<Rightarrow> pyval \<Rightarrow> bool" where
  \<comment> \<open>\<open>a == b\<close>: numbers compare by value across bool, int and float\<close>
  "py_eq a b =
     (case (num_of a, num_of b) of
        (Some x, Some y) \<Rightarrow> \<not> is_nan x \<and> x = y
      | (None, None) \<Rightarrow> a = b
      | _ \<Rightarrow> False)"

fun same_object :: "pyval \<Rightarrow> pyval \<Rightarrow> bool" where
  \<comment> \<open>\<open>a is b\<close>, as far as it differs from \<open>a == b\<close>: for two NaN\<close>
  "same_object (PFloat (FNaN i)) (PFloat (FNaN j)) = (i = j)"
| "same_object a b = False"

definition same_key :: "pyval \<Rightarrow> pyval \<Rightarrow> bool" where
  \<comment> \<open>a set takes \<open>a\<close> and \<open>b\<close> for one element: the same object, or equal\<close>
  "same_key a b = (same_object a b \<or> py_eq a b)"

definition set_has :: "pyval list \<Rightarrow> pyval \<Rightarrow> bool" where
  \<comment> \<open>\<open>v in seen\<close> for a set\<close>
  "set_has seen v = list_ex (same_key v) seen"

definition py_take :: "int \<Rightarrow> 'a list \<Rightarrow> 'a list" where
  \<comment> \<open>the slice \<open>xs[:n]\<close>; a negative \<open>n\<close> counts from the end\<close>
  "py_take n xs = (if 0 \<le> n then take (nat n) xs else take (length xs - nat (- n)) xs)"

subsection \<open>\<open>int(str)\<close>\<close>

text \<open>
  \<open>int(s)\<close> in base 10: surrounding whitespace is dropped, one sign is allowed, and the
  digits may be separated by single underscores. Anything else raises \<open>ValueError\<close>
  (\<open>None\<close> here), and so does a text of more than 4300 digits, the interpreter's
  default limit. The whitespace is the C one (tab to carriage return, and the space),
  and of the characters from 127 on the Unicode spaces 0x85 and 0xA0, which \<open>int\<close>
  first turns into spaces; the separators 0x1C to 0x1F are not dropped.
\<close>

definition int_max_str_digits :: nat where
  "int_max_str_digits = 4300"

definition is_int_space :: "char \<Rightarrow> bool" where
  "is_int_space c = (let n = (of_char c :: nat) in
     (9 \<le> n \<and> n \<le> 13) \<or> n = 32 \<or> n = 133 \<or> n = 160)"

definition int_strip :: "string \<Rightarrow> string" where
  "int_strip s = strip_with is_int_space s"

fun parse_digits :: "nat \<Rightarrow> string \<Rightarrow> nat option" where
  "parse_digits acc [] = None"
| "parse_digits acc [c] = (if is_digit c then Some (10 * acc + digit_val c) else None)"
| "parse_digits acc (c # d # ds) =
     (if is_digit c
      then (if d = CHR ''_'' then parse_digits (10 * acc + digit_val c) ds
            else parse_digits (10 * acc + digit_val c) (d # ds))
      else None)"

definition digits_in_limit :: "string \<Rightarrow> nat option \<Rightarrow> nat option" where
  \<comment> \<open>the limit on the number of digits of the text\<close>
  "digits_in_limit body v =
     (if length (filter is_digit body) > int_max_str_digits then None else v)"

definition py_int :: "string \<Rightarrow> int option" where
  "py_int s =
     (case int_strip s of
        [] \<Rightarrow> None
      | c # cs \<Rightarrow>
          if c = CHR ''+'' then map_option int (digits_in_limit cs (parse_digits 0 cs))
          else if c = CHR ''-''
          then map_option (\<lambda>n. - int n) (digits_in_limit cs (parse_digits 0 cs))
          else map_option int (digits_in_limit (c # cs) (parse_digits 0 (c # cs))))"

definition valid_since_when :: "string \<Rightarrow> bool" where
  \<comment> \<open>the pattern \<open>^[0-9]+[dw]$\<close> a request must match to reach a handler\<close>
  "valid_since_when s =
     (case rev s of
        [] \<Rightarrow> False
      | unit # digits \<Rightarrow>
          (unit = CHR ''d'' \<or> unit = CHR ''w'') \<and> digits \<noteq> [] \<and> list_all is_digit digits)"

section \<open>The lookback specifier\<close>

definition parse_since_when :: "string \<Rightarrow> error + int" where
  "parse_since_when since_when =
     (case py_int (butlast since_when) of
        None \<Rightarrow> Inl ValueError
      | Some v \<Rightarrow>
          (case rev since_when of
             [] \<Rightarrow> Inl IndexError
           | unit # _ \<Rightarrow>
               if unit = CHR ''d'' then Inr (v * 24)
               else if unit = CHR ''w'' then Inr (v * 24 * 7)
               else Inr 24))"

section \<open>Filtering\<close>

definition filter_jobs :: "(rat \<Rightarrow> string) \<Rightarrow> job list \<Rightarrow> string list \<Rightarrow> job list" where
  "filter_jobs fr jobs exclude_list =
     (if exclude_list = [] then jobs
      else
        let exclude_lower = map lower exclude_list
        in filter (\<lambda>job. \<not> list_ex (\<lambda>exc. str_in exc (get_text fr job ''title'')) exclude_lower)
             jobs)"

definition and_filter :: "(rat \<Rightarrow> string) \<Rightarrow> string list \<Rightarrow> job list \<Rightarrow> job list" where
  \<comment> \<open>the AND-mode comprehension of both handlers\<close>
  "and_filter fr keywords jobs =
     (let keywords_lower = map lower keywords
      in filter (\<lambda>job. list_all (\<lambda>kw. str_in kw (get_text fr job ''title'')
                                     \<or> str_in kw (get_text fr job ''description''))
                           keywords_lower)
           jobs)"

section \<open>Remote validation\<close>

definition generic_locations :: "string list" where
  "generic_locations =
     [''remote'', ''usa'', ''united states'', ''anywhere'',
      ''work from home'', ''wfh'', ''nationwide'']"

definition state_abbrevs :: "string list" where
  "state_abbrevs =
     [''al'', ''ak'', ''az'', ''ar'', ''ca'', ''co'', ''ct'', ''de'', ''fl'', ''ga'',
      ''hi'', ''id'', ''il'', ''in'', ''ia'', ''ks'', ''ky'', ''la'', ''me'', ''md'',
      ''ma'', ''mi'', ''mn'', ''ms'', ''mo'', ''mt'', ''ne'', ''nv'', ''nh'', ''nj'',
      ''nm'', ''ny'', ''nc'', ''nd'', ''oh'', ''ok'', ''or'', ''pa'', ''ri'', ''sc'',
      ''sd'', ''tn'', ''tx'', ''ut'', ''vt'', ''va'', ''wa'', ''wv'', ''wi'', ''wy'', ''dc'']"

definition default_salary_threshold :: int where
  "default_salary_threshold = 150000"

definition location_text :: "(rat \<Rightarrow> string) \<Rightarrow> job \<Rightarrow> string" where
  \<comment> \<open>\<open>str(job.get("location") or "").lower().strip()\<close>\<close>
  "location_text fr job =
     strip (lower (py_str fr
       (case job ''location'' of
          None \<Rightarrow> PStr []
        | Some v \<Rightarrow> if truthy v then v else PStr [])))"

definition is_generic :: "string \<Rightarrow> bool" where
  "is_generic location = list_ex (\<lambda>gen. str_in gen location) generic_locations"

definition has_state :: "string \<Rightarrow> bool" where
  "has_state location =
     list_ex (\<lambda>st. str_in ('', '' @ st) ('', '' @ location) \<or> endswith location ('' '' @ st))
       state_abbrevs"

definition amount_or_zero :: "job \<Rightarrow> string \<Rightarrow> pyfloat option" where
  \<comment> \<open>\<open>job.get(key) or 0\<close> as a number; \<open>None\<close> when the value cannot be compared
      with a number\<close>
  "amount_or_zero job key =
     (case job key of
        None \<Rightarrow> Some (FFin 0)
      | Some v \<Rightarrow> if truthy v then num_of v else Some (FFin 0))"

definition salary_of :: "job \<Rightarrow> error + pyfloat" where
  \<comment> \<open>\<open>max(min_salary, max_salary)\<close>; a text or a date among the two raises
      \<open>TypeError\<close>, there or at the comparison with the threshold\<close>
  "salary_of job =
     (case (amount_or_zero job ''min_amount'', amount_or_zero job ''max_amount'') of
        (Some min_salary, Some max_salary) \<Rightarrow> Inr (py_max min_salary max_salary)
      | _ \<Rightarrow> Inl TypeError)"

definition validate_remote_job :: "(rat \<Rightarrow> string) \<Rightarrow> int \<Rightarrow> job \<Rightarrow> error + job option" where
  \<comment> \<open>one round of the loop of \<open>validate_remote_jobs\<close>: the record to append, if any\<close>
  "validate_remote_job fr salary_threshold job =
     (let location = location_text fr job in
      if location = [] then Inr (Some (job(''_remote_validated'' \<mapsto> PBool True)))
      else if is_generic location then Inr (Some (job(''_remote_validated'' \<mapsto> PBool True)))
      else
        case salary_of job of
          Inl e \<Rightarrow> Inl e
        | Inr salary \<Rightarrow>
            if f_ge salary (FFin (of_int salary_threshold))
            then Inr (Some (job(''_remote_validated'' \<mapsto> PBool False,
                                ''_high_salary'' \<mapsto> PBool True)))
            else if has_state location \<or> str_in '','' location then Inr None
            else Inr (Some (job(''_remote_validated'' \<mapsto> PBool True))))"

fun validate_remote_jobs :: "(rat \<Rightarrow> string) \<Rightarrow> int \<Rightarrow> job list \<Rightarrow> error + job list" where
  "validate_remote_jobs fr salary_threshold [] = Inr []"
| "validate_remote_jobs fr salary_threshold (job # jobs) =
     (case validate_remote_job fr salary_threshold job of
        Inl e \<Rightarrow> Inl e
      | Inr kept \<Rightarrow>
          (case validate_remote_jobs fr salary_threshold jobs of
             Inl e \<Rightarrow> Inl e
           | Inr validated \<Rightarrow>
               Inr (case kept of None \<Rightarrow> validated | Some job' \<Rightarrow> job' # validated)))"

definition keep_or_drop :: "error + job option \<Rightarrow> job list" where
  \<comment> \<open>what one round of the loop appends to \<open>validated\<close>\<close>
  "keep_or_drop r = (case r of Inr (Some job) \<Rightarrow> [job] | _ \<Rightarrow> [])"

section \<open>Scoring\<close>

record scoring_config =
  sc_mgmt_titles :: "string list option"
  sc_senior_ic_titles :: "string list option"
  sc_preferred_titles :: "string list option"
  sc_bad_titles :: "string list option"
  sc_good_locations :: "string list option"
  sc_good_skills :: "string list option"
  sc_red_flags :: "string list option"
  sc_large_companies :: "string list option"

definition get_or :: "'a option \<Rightarrow> 'a \<Rightarrow> 'a" where
  \<comment> \<open>\<open>d.get(key, default)\<close> on a looked-up entry\<close>
  "get_or v d = (case v of None \<Rightarrow> d | Some x \<Rightarrow> x)"

definition mgmt_titles :: "scoring_config \<Rightarrow> string list" where
  "mgmt_titles scoring = get_or (sc_mgmt_titles scoring)
     [''manager'', ''director'', ''head of'', ''vp '', ''vice president'']"

definition senior_ic_titles :: "scoring_config \<Rightarrow> string list" where
  "senior_ic_titles scoring = get_or (sc_senior_ic_titles scoring)
     [''senior'', ''sr.'', ''sr '', ''lead'', ''principal'', ''staff'']"

definition preferred_titles :: "scoring_config \<Rightarrow> string list" where
  "preferred_titles scoring = get_or (sc_preferred_titles scoring) []"

definition bad_titles :: "scoring_config \<Rightarrow> string list" where
  "bad_titles scoring = get_or (sc_bad_titles scoring)
     [''developer'', ''software engineer'', ''product manager'', ''project manager'',
      ''data engineer'', ''machine learning'', ''ml '', ''ai '', ''analytics'',
      ''financial system'', ''business system'', ''hris'', ''erp'', ''salesforce'',
      ''mainframe'', ''z/os'', ''as/400'', ''cobol'',
      ''expense'', ''budget'', ''accounting'', ''credit'', ''risk analyst'',
      ''marketing'', ''sales engineer'', ''solutions architect'', ''pre-sales'',
      ''recruiting'', ''talent'', ''hr '', ''human resource'']"

definition good_locations :: "scoring_config \<Rightarrow> string list" where
  "good_locations scoring = get_or (sc_good_locations scoring) [''remote'']"

definition good_skills :: "scoring_config \<Rightarrow> string list" where
  "good_skills scoring = get_or (sc_good_skills scoring)
     [''terraform'', ''ansible'', ''kubernetes'', ''docker'', ''aws'', ''azure'', ''gcp'']"

definition red_flags :: "scoring_config \<Rightarrow> string list" where
  "red_flags scoring = get_or (sc_red_flags scoring) [''contract to hire'', ''c2h'']"

definition large_companies :: "scoring_config \<Rightarrow> string list" where
  "large_companies scoring = get_or (sc_large_companies scoring)
     [''amazon'', ''aws'', ''google'', ''microsoft'', ''meta'', ''facebook'', ''apple'',
      ''netflix'', ''nvidia'', ''oracle'', ''ibm'', ''cisco'', ''intel'', ''salesforce'',
      ''adobe'', ''accenture'', ''deloitte'', ''kpmg'', ''pwc'', ''cognizant'', ''infosys'',
      ''wipro'', ''tcs'', ''capgemini'', ''dxc'', ''hcl'',
      ''robert half'', ''randstad'', ''manpower'', ''kelly services'', ''adecco'',
      ''insight global'', ''teksystems'', ''apex systems'']"

definition any_in :: "string list \<Rightarrow> string \<Rightarrow> bool" where
  \<comment> \<open>\<open>any(kw in text for kw in kws)\<close>\<close>
  "any_in kws text = list_ex (\<lambda>kw. str_in kw text) kws"

definition count_in :: "string list \<Rightarrow> string \<Rightarrow> int" where
  \<comment> \<open>how many rounds of \<open>for kw in kws: if kw in text\<close> take the branch\<close>
  "count_in kws text = int (length (filter (\<lambda>kw. str_in kw text) kws))"

definition is_manager :: "(rat \<Rightarrow> string) \<Rightarrow> scoring_config \<Rightarrow> job \<Rightarrow> bool" where
  "is_manager fr scoring job = any_in (mgmt_titles scoring) (get_text fr job ''title'')"

definition is_senior_ic :: "(rat \<Rightarrow> string) \<Rightarrow> scoring_config \<Rightarrow> job \<Rightarrow> bool" where
  "is_senior_ic fr scoring job =
     (any_in (senior_ic_titles scoring) (get_text fr job ''title'')
      \<and> \<not> is_manager fr scoring job)"

definition is_large_company :: "(rat \<Rightarrow> string) \<Rightarrow> scoring_config \<Rightarrow> job \<Rightarrow> bool" where
  "is_large_company fr scoring job =
     any_in (large_companies scoring) (get_text fr job ''company'')"

definition job_score :: "(rat \<Rightarrow> string) \<Rightarrow> scoring_config \<Rightarrow> job \<Rightarrow> int" where
  \<comment> \<open>the value of \<open>score\<close> at the end of one round of the loop of \<open>score_jobs\<close>\<close>
  "job_score fr scoring job =
     (let title = get_text fr job ''title'';
          description = get_text fr job ''description'';
          location = get_text fr job ''location'';
          company = get_text fr job ''company'';
          text = title @ '' '' @ description @ '' '' @ company;
          site = get_text fr job ''site''
      in (if is_manager fr scoring job then 25
          else if is_senior_ic fr scoring job then 10
          else - 10)
         + (if preferred_titles scoring \<noteq> [] \<and> any_in (preferred_titles scoring) title
            then 15 else 0)
         - (if any_in (bad_titles scoring) title then 20 else 0)
         + (if any_in (good_locations scoring) location then 10 else 0)
         + (if str_in ''remote'' location \<or> str_in ''remote'' title then 10 else 0)
         + 5 * count_in (good_skills scoring) description
         - 10 * count_in (red_flags scoring) text
         - (if is_large_company fr scoring job then 5 else 0)
         + (if site = ''usajobs'' then 10 else 0))"

definition score_job :: "(rat \<Rightarrow> string) \<Rightarrow> scoring_config \<Rightarrow> job \<Rightarrow> job" where
  \<comment> \<open>the record after one round of the loop of \<open>score_jobs\<close>\<close>
  "score_job fr scoring job =
     (let job1 = (if is_large_company fr scoring job
                  then job(''_large_company'' \<mapsto> PBool True) else job);
          job2 = (if get_text fr job ''site'' = ''usajobs''
                  then job1(''_govt_job'' \<mapsto> PBool True) else job1)
      in job2(''_score'' \<mapsto> PInt (job_score fr scoring job),
              ''_is_manager'' \<mapsto> PBool (is_manager fr scoring job),
              ''_is_senior_ic'' \<mapsto> PBool (is_senior_ic fr scoring job)))"

definition score_key :: "job \<Rightarrow> int" where
  \<comment> \<open>the sort key \<open>x.get("_score", 0)\<close>; the loop has stored an int in every record\<close>
  "score_key job = (case job ''_score'' of Some (PInt n) \<Rightarrow> n | _ \<Rightarrow> 0)"

definition sorted_reverse :: "('a \<Rightarrow> int) \<Rightarrow> 'a list \<Rightarrow> 'a list" where
  \<comment> \<open>\<open>sorted(xs, key=key, reverse=True)\<close>: the list is reversed, sorted by the stable
      ascending sort, and reversed again\<close>
  "sorted_reverse key xs = rev (sort_key key (rev xs))"

definition score_jobs ::
  "(rat \<Rightarrow> string) \<Rightarrow> scoring_config \<Rightarrow> job list \<Rightarrow> string list \<Rightarrow> job list" where
  "score_jobs fr scoring jobs include_list =
     sorted_reverse score_key (map (score_job fr scoring) jobs)"

section \<open>Sanitisation and deduplication\<close>

fun clean_value :: "pyval \<Rightarrow> pyval" where
  "clean_value (PFloat (FNaN i)) = PNone"
| "clean_value (PDatetime d) = PStr (isoformat d)"
| "clean_value v = v"

definition clean_job :: "job \<Rightarrow> job" where
  "clean_job job = (\<lambda>key. map_option clean_value (job key))"

definition clean_job_data :: "job list \<Rightarrow> job list" where
  "clean_job_data jobs = map clean_job jobs"

fun dedupe_loop :: "pyval list \<Rightarrow> job list \<Rightarrow> job list" where
  \<comment> \<open>the loop of \<open>dedupe_jobs\<close> from a given \<open>seen\<close>\<close>
  "dedupe_loop seen [] = []"
| "dedupe_loop seen (job # jobs) =
     (case job ''job_url'' of
        None \<Rightarrow> job # dedupe_loop seen jobs
      | Some url \<Rightarrow>
          if truthy url \<and> \<not> set_has seen url
          then job # dedupe_loop (url # seen) jobs
          else if \<not> truthy url then job # dedupe_loop seen jobs
          else dedupe_loop seen jobs)"

definition dedupe_jobs :: "job list \<Rightarrow> job list" where
  "dedupe_jobs jobs = dedupe_loop [] jobs"

definition url_is :: "pyval \<Rightarrow> job \<Rightarrow> bool" where
  \<comment> \<open>the record has a \<open>job_url\<close> that a set takes for \<open>u\<close>\<close>
  "url_is u job = (case job ''job_url'' of None \<Rightarrow> False | Some v \<Rightarrow> same_key v u)"

section \<open>Configuration, requests and responses\<close>

record location_spec =
  loc_name :: "string option"
  loc_is_remote :: "bool option"
  loc_location :: "string option"
  loc_distance :: "int option"

record config =
  cfg_sites :: "string list"
  cfg_country_indeed :: string
  cfg_linkedin_fetch_description :: bool
  cfg_verbose :: int
  cfg_results_wanted :: int
  cfg_locations :: "location_spec list"
  cfg_exclude_keywords :: "string list"
  cfg_include_keywords :: "string list"
  cfg_scoring :: scoring_config
  cfg_usajobs_enabled :: bool
  cfg_usajobs_api_key :: "string option"
  cfg_usajobs_email :: "string option"

record job_request =
  rq_sinceWhen :: string
  rq_keywords :: "string list option"
  rq_excludeKeywords :: "string list option"
  rq_isRemote :: "bool option"
  rq_location :: "string option"
  rq_distance :: "int option"
  rq_requireAllKeywords :: bool
  rq_limit :: int

record job_response =
  rs_error :: bool
  rs_jobs :: "job list"
  rs_locations_searched :: "string list option"

record http_reply =
  http_status :: nat
  http_body :: job_response

definition nonempty :: "'a list option \<Rightarrow> bool" where
  \<comment> \<open>the truth value of an optional string or list\<close>
  "nonempty v = (case v of None \<Rightarrow> False | Some xs \<Rightarrow> xs \<noteq> [])"

definition distance_or_50 :: "int option \<Rightarrow> int" where
  \<comment> \<open>\<open>request.distance or 50\<close>\<close>
  "distance_or_50 d = (case d of None \<Rightarrow> 50 | Some n \<Rightarrow> if n = 0 then 50 else n)"

section \<open>Source adapters\<close>

text \<open>
  The scraping library is outside the repository. Its call
  \<open>scrape_jobs(**params).to_dict(orient="records")\<close> is the parameter \<open>scrape\<close>: the
  records it returns, or the exception it raises.
\<close>

record scrape_params =
  sp_site_name :: "string list"
  sp_search_term :: string
  sp_country_indeed :: string
  sp_results_wanted :: int
  sp_hours_old :: int
  sp_linkedin_fetch_description :: bool
  sp_verbose :: int
  sp_is_remote :: "bool option"
  sp_location :: "string option"
  sp_distance :: "int option"

definition single_location_params ::
  "config \<Rightarrow> string \<Rightarrow> int \<Rightarrow> int \<Rightarrow> bool \<Rightarrow> string option \<Rightarrow> int \<Rightarrow> scrape_params" where
  \<comment> \<open>the dictionary \<open>params\<close> that \<open>scrape_single_location\<close> builds\<close>
  "single_location_params cfg search_term hours_old results_wanted is_remote location distance =
     (let params = \<lparr>sp_site_name = cfg_sites cfg,
                     sp_search_term = search_term,
                     sp_country_indeed = cfg_country_indeed cfg,
                     sp_results_wanted = results_wanted,
                     sp_hours_old = hours_old,
                     sp_linkedin_fetch_description = cfg_linkedin_fetch_description cfg,
                     sp_verbose = cfg_verbose cfg,
                     sp_is_remote = None,
                     sp_location = None,
                     sp_distance = None\<rparr>
      in if is_remote then params\<lparr>sp_is_remote := Some True\<rparr>
         else if nonempty location
         then params\<lparr>sp_location := location, sp_distance := Some distance\<rparr>
         else params\<lparr>sp_location := Some ''United States''\<rparr>)"

definition scrape_single_location ::
  "config \<Rightarrow> (scrape_params \<Rightarrow> error + job list) \<Rightarrow> string \<Rightarrow> int \<Rightarrow> int \<Rightarrow> bool
   \<Rightarrow> string option \<Rightarrow> int \<Rightarrow> error + job list" where
  \<comment> \<open>no handler surrounds the call: what it raises leaves the function\<close>
  "scrape_single_location cfg scrape search_term hours_old results_wanted is_remote
     location distance =
     scrape (single_location_params cfg search_term hours_old results_wanted is_remote
               location distance)"

text \<open>
  The government-jobs adapter: the HTTP request together with the translation of its JSON
  reply into records is the parameter \<open>api\<close>. Whatever it raises is caught inside the
  adapter.
\<close>

record usajobs_params =
  up_keyword :: string
  up_date_posted :: int
  up_results_per_page :: int
  up_location_name :: "string option"
  up_radius :: "int option"

definition scrape_usajobs ::
  "config \<Rightarrow> (usajobs_params \<Rightarrow> error + job list) \<Rightarrow> string \<Rightarrow> int \<Rightarrow> int \<Rightarrow> bool
   \<Rightarrow> string option \<Rightarrow> int \<Rightarrow> job list" where
  "scrape_usajobs cfg api search_term hours_old results_wanted is_remote location distance =
     (if \<not> nonempty (cfg_usajobs_api_key cfg) \<or> \<not> nonempty (cfg_usajobs_email cfg) then []
      else
        let d = min (hours_old div 24) 60;
            days_posted = (if d = 0 then 1 else d);
            params = \<lparr>up_keyword = search_term,
                      up_date_posted = days_posted,
                      up_results_per_page = min results_wanted 500,
                      up_location_name = None,
                      up_radius = None\<rparr>;
            params' =
              (if nonempty location \<and> \<not> is_remote
               then params\<lparr>up_location_name := location,
                           up_radius := (if distance \<noteq> 0 then Some distance else None)\<rparr>
               else params)
        in case api params' of Inl e \<Rightarrow> [] | Inr jobs \<Rightarrow> jobs)"

definition usajobs_on :: "config \<Rightarrow> bool" where
  \<comment> \<open>\<open>CONFIG.get("usajobs_enabled") and CONFIG.get("usajobs_api_key")\<close>\<close>
  "usajobs_on cfg = (cfg_usajobs_enabled cfg \<and> nonempty (cfg_usajobs_api_key cfg))"

section \<open>Request handlers\<close>

definition keywords_of :: "job_request \<Rightarrow> string list" where
  \<comment> \<open>the request's keywords; a missing list and an empty one are both false\<close>
  "keywords_of request = (case rq_keywords request of None \<Rightarrow> [] | Some kws \<Rightarrow> kws)"

definition search_term_of :: "job_request \<Rightarrow> string" where
  "search_term_of request =
     (if keywords_of request \<noteq> [] then py_join '' '' (keywords_of request)
      else ''software engineer'')"

definition exclude_list_of :: "config \<Rightarrow> job_request \<Rightarrow> string list" where
  "exclude_list_of cfg request =
     (case rq_excludeKeywords request of None \<Rightarrow> [] | Some xs \<Rightarrow> xs)
     @ cfg_exclude_keywords cfg"

definition and_mode :: "(rat \<Rightarrow> string) \<Rightarrow> job_request \<Rightarrow> job list \<Rightarrow> job list" where
  "and_mode fr request jobs =
     (if rq_requireAllKeywords request \<and> keywords_of request \<noteq> []
      then and_filter fr (keywords_of request) jobs
      else jobs)"

definition validate_if :: "(rat \<Rightarrow> string) \<Rightarrow> bool \<Rightarrow> job list \<Rightarrow> error + job list" where
  \<comment> \<open>\<open>if is_remote: jobs = validate_remote_jobs(jobs)\<close>, with the default threshold\<close>
  "validate_if fr is_remote jobs =
     (if is_remote then validate_remote_jobs fr default_salary_threshold jobs else Inr jobs)"

definition finish_jobs :: "config \<Rightarrow> (rat \<Rightarrow> string) \<Rightarrow> job_request \<Rightarrow> job list \<Rightarrow> job list" where
  \<comment> \<open>the statements both handlers end with: exclusion filter, AND mode, scoring and
      sort, sanitisation, and the slice \<open>[:request.limit]\<close>\<close>
  "finish_jobs cfg fr request jobs =
     (let filtered = filter_jobs fr jobs (exclude_list_of cfg request);
          matched = and_mode fr request filtered;
          scored = score_jobs fr (cfg_scoring cfg) matched (cfg_include_keywords cfg);
          cleaned = clean_job_data scored
      in py_take (rq_limit request) cleaned)"

definition error_response :: job_response where
  "error_response = \<lparr>rs_error = True, rs_jobs = [], rs_locations_searched = None\<rparr>"

definition get_jobs_try ::
  "config \<Rightarrow> (scrape_params \<Rightarrow> error + job list) \<Rightarrow> (usajobs_params \<Rightarrow> error + job list)
   \<Rightarrow> (rat \<Rightarrow> string) \<Rightarrow> job_request \<Rightarrow> error + job_response" where
  \<comment> \<open>the \<open>try\<close> block of \<open>get_jobs\<close>\<close>
  "get_jobs_try cfg scrape api fr request =
     (case parse_since_when (rq_sinceWhen request) of
        Inl e \<Rightarrow> Inl e
      | Inr hours_old \<Rightarrow>
          let search_term = search_term_of request;
              is_remote = (rq_isRemote request = Some True)
          in
          (case scrape_single_location cfg scrape search_term hours_old (rq_limit request)
                  is_remote (rq_location request) (distance_or_50 (rq_distance request)) of
             Inl e \<Rightarrow> Inl e
           | Inr scraped \<Rightarrow>
               let jobs =
                     (if usajobs_on cfg
                      then scraped @ scrape_usajobs cfg api search_term hours_old
                             (rq_limit request) is_remote (rq_location request)
                             (distance_or_50 (rq_distance request))
                      else scraped)
               in
               (case validate_if fr is_remote jobs of
                  Inl e \<Rightarrow> Inl e
                | Inr validated \<Rightarrow>
                    Inr \<lparr>rs_error = False,
                         rs_jobs = finish_jobs cfg fr request validated,
                         rs_locations_searched = None\<rparr>)))"

definition get_jobs ::
  "config \<Rightarrow> (scrape_params \<Rightarrow> error + job list) \<Rightarrow> (usajobs_params \<Rightarrow> error + job list)
   \<Rightarrow> (rat \<Rightarrow> string) \<Rightarrow> job_request \<Rightarrow> http_reply" where
  \<comment> \<open>the handler returns a response in both branches, which the framework sends with
      status 200\<close>
  "get_jobs cfg scrape api fr request =
     (case get_jobs_try cfg scrape api fr request of
        Inr response \<Rightarrow> \<lparr>http_status = 200, http_body = response\<rparr>
      | Inl e \<Rightarrow> \<lparr>http_status = 200, http_body = error_response\<rparr>)"

definition locations_of :: "config \<Rightarrow> job_request \<Rightarrow> location_spec list" where
  \<comment> \<open>the configured locations, or the single one made from the request\<close>
  "locations_of cfg request =
     (if cfg_locations cfg \<noteq> [] then cfg_locations cfg
      else if nonempty (rq_location request)
      then [\<lparr>loc_name = rq_location request, loc_is_remote = None,
              loc_location = rq_location request,
              loc_distance = Some (distance_or_50 (rq_distance request))\<rparr>]
      else [\<lparr>loc_name = Some ''default'',
              loc_is_remote = Some (rq_isRemote request = Some True),
              loc_location = None, loc_distance = None\<rparr>])"

definition tag_jobs :: "string \<Rightarrow> job list \<Rightarrow> job list" where
  \<comment> \<open>\<open>for job in jobs: job["_location_name"] = name\<close>\<close>
  "tag_jobs name jobs = map (\<lambda>job. job(''_location_name'' \<mapsto> PStr name)) jobs"

definition search_location ::
  "config \<Rightarrow> (scrape_params \<Rightarrow> error + job list) \<Rightarrow> (rat \<Rightarrow> string) \<Rightarrow> string \<Rightarrow> int
   \<Rightarrow> location_spec \<Rightarrow> job list" where
  \<comment> \<open>one round of the first loop of \<open>search_all\<close>: what it appends to \<open>all_jobs\<close>\<close>
  "search_location cfg scrape fr search_term hours_old loc =
     (let name = get_or (loc_name loc) ''unknown'';
          is_remote = get_or (loc_is_remote loc) False;
          location = loc_location loc;
          distance = get_or (loc_distance loc) 50
      in case scrape_single_location cfg scrape search_term hours_old
                (cfg_results_wanted cfg) is_remote location distance of
           Inl e \<Rightarrow> []
         | Inr jobs \<Rightarrow>
             (case validate_if fr is_remote jobs of
                Inl e \<Rightarrow> []
              | Inr validated \<Rightarrow> tag_jobs name validated))"

definition search_location_usajobs ::
  "config \<Rightarrow> (usajobs_params \<Rightarrow> error + job list) \<Rightarrow> string \<Rightarrow> int \<Rightarrow> location_spec
   \<Rightarrow> job list" where
  \<comment> \<open>one round of the second loop of \<open>search_all\<close>\<close>
  "search_location_usajobs cfg api search_term hours_old loc =
     tag_jobs (get_or (loc_name loc) ''unknown'' @ ''_usajobs'')
       (scrape_usajobs cfg api search_term hours_old (cfg_results_wanted cfg)
          (get_or (loc_is_remote loc) False) (loc_location loc)
          (get_or (loc_distance loc) 50))"

definition merged_jobs ::
  "config \<Rightarrow> (scrape_params \<Rightarrow> error + job list) \<Rightarrow> (usajobs_params \<Rightarrow> error + job list)
   \<Rightarrow> (rat \<Rightarrow> string) \<Rightarrow> string \<Rightarrow> int \<Rightarrow> location_spec list \<Rightarrow> job list" where
  \<comment> \<open>\<open>all_jobs\<close> after both loops of \<open>search_all\<close>\<close>
  "merged_jobs cfg scrape api fr search_term hours_old locations =
     concat (map (search_location cfg scrape fr search_term hours_old) locations)
     @ (if usajobs_on cfg
        then concat (map (search_location_usajobs cfg api search_term hours_old) locations)
        else [])"

definition search_all_try ::
  "config \<Rightarrow> (scrape_params \<Rightarrow> error + job list) \<Rightarrow> (usajobs_params \<Rightarrow> error + job list)
   \<Rightarrow> (rat \<Rightarrow> string) \<Rightarrow> job_request \<Rightarrow> error + job_response" where
  \<comment> \<open>the \<open>try\<close> block of \<open>search_all\<close>\<close>
  "search_all_try cfg scrape api fr request =
     (case parse_since_when (rq_sinceWhen request) of
        Inl e \<Rightarrow> Inl e
      | Inr hours_old \<Rightarrow>
          let search_term = search_term_of request;
              locations = locations_of cfg request;
              locations_searched = map (\<lambda>loc. get_or (loc_name loc) ''unknown'') locations;
              all_jobs = merged_jobs cfg scrape api fr search_term hours_old locations;
              unique = dedupe_jobs all_jobs
          in Inr \<lparr>rs_error = False,
                  rs_jobs = finish_jobs cfg fr request unique,
                  rs_locations_searched = Some locations_searched\<rparr>)"

definition search_all ::
  "config \<Rightarrow> (scrape_params \<Rightarrow> error + job list) \<Rightarrow> (usajobs_params \<Rightarrow> error + job list)
   \<Rightarrow> (rat \<Rightarrow> string) \<Rightarrow> job_request \<Rightarrow> http_reply" where
  "search_all cfg scrape api fr request =
     (case search_all_try cfg scrape api fr request of
        Inr response \<Rightarrow> \<lparr>http_status = 200, http_body = response\<rparr>
      | Inl e \<Rightarrow> \<lparr>http_status = 200, http_body = error_response\<rparr>)"

section \<open>Source-provided fields\<close>

definition source_fields :: "string list" where
  "source_fields =
     [''title'', ''company'', ''location'', ''job_url'', ''description'', ''date_posted'',
      ''min_amount'', ''max_amount'', ''interval'', ''job_type'']"

definition extension_fields :: "string list" where
  \<comment> \<open>the keys the pipeline writes\<close>
  "extension_fields =
     [''_remote_validated'', ''_high_salary'', ''_location_name'', ''_large_company'',
      ''_govt_job'', ''_score'', ''_is_manager'', ''_is_senior_ic'']"

definition same_source :: "job \<Rightarrow> job \<Rightarrow> bool" where
  \<comment> \<open>\<open>job'\<close> is \<open>job\<close> but for extension fields: every other key is present in
      both or in neither, with the same value\<close>
  "same_source job job' = (\<forall>key. key \<notin> set extension_fields \<longrightarrow> job' key = job key)"

definition sanitised :: "job \<Rightarrow> job \<Rightarrow> bool" where
  \<comment> \<open>\<open>job'\<close> is \<open>job\<close> after \<open>clean_job_data\<close> but for extension fields\<close>
  "sanitised job job' =
     (\<forall>key. key \<notin> set extension_fields \<longrightarrow> job' key = map_option clean_value (job key))"

definition returned_by ::
  "(scrape_params \<Rightarrow> error + job list) \<Rightarrow> (usajobs_params \<Rightarrow> error + job list) \<Rightarrow> job \<Rightarrow> bool"
  where
  \<comment> \<open>the record is among those one of the two external calls returned\<close>
  "returned_by scrape api job =
     ((\<exists>params jobs. scrape params = Inr jobs \<and> job \<in> set jobs)
      \<or> (\<exists>params jobs. api params = Inr jobs \<and> job \<in> set jobs))"

section \<open>Example data\<close>

definition example_repr :: "rat \<Rightarrow> string" where
  \<comment> \<open>a float representation for the examples, none of which holds a float in a text
      field\<close>
  "example_repr r = ''0.0''"

definition default_scoring :: scoring_config where
  \<comment> \<open>no \<open>scoring:\<close> section in the configuration file: every list is the built-in one\<close>
  "default_scoring =
     \<lparr>sc_mgmt_titles = None, sc_senior_ic_titles = None, sc_preferred_titles = None,
      sc_bad_titles = None, sc_good_locations = None, sc_good_skills = None,
      sc_red_flags = None, sc_large_companies = None\<rparr>"

definition manager_job :: job where
  "manager_job = [''title'' \<mapsto> PStr ''Senior Manager'', ''job_url'' \<mapsto> PStr ''https://a/1'']"

definition staff_job :: job where
  "staff_job = [''title'' \<mapsto> PStr ''Staff Engineer'', ''job_url'' \<mapsto> PStr ''https://a/2'']"

definition director_job :: job where
  "director_job = [''title'' \<mapsto> PStr ''Director'', ''job_url'' \<mapsto> PStr ''https://a/1'']"

definition sales_job :: job where
  "sales_job = [''title'' \<mapsto> PStr ''Sales Engineer'']"

definition ny_job :: "pyval \<Rightarrow> job" where
  "ny_job amount = [''location'' \<mapsto> PStr ''New York, NY'', ''max_amount'' \<mapsto> amount]"

definition ny_min_job :: job where
  "ny_min_job =
     [''location'' \<mapsto> PStr ''New York, NY'', ''min_amount'' \<mapsto> PInt 160000,
      ''max_amount'' \<mapsto> PInt 120000]"

definition nan_min_job :: job where
  "nan_min_job =
     [''location'' \<mapsto> PStr ''New York, NY'', ''min_amount'' \<mapsto> PFloat (FNaN 0),
      ''max_amount'' \<mapsto> PFloat (FFin 160000)]"

definition remote_job :: "pyval \<Rightarrow> job" where
  "remote_job amount = [''location'' \<mapsto> PStr ''Remote'', ''max_amount'' \<mapsto> amount]"

definition example_config :: config where
  \<comment> \<open>the built-in defaults, no configuration file\<close>
  "example_config =
     \<lparr>cfg_sites = [''indeed'', ''linkedin'', ''glassdoor'', ''zip_recruiter'', ''google''],
      cfg_country_indeed = ''USA'',
      cfg_linkedin_fetch_description = False,
      cfg_verbose = 1,
      cfg_results_wanted = 50,
      cfg_locations = [],
      cfg_exclude_keywords = [],
      cfg_include_keywords = [],
      cfg_scoring = default_scoring,
      cfg_usajobs_enabled = False,
      cfg_usajobs_api_key = None,
      cfg_usajobs_email = None\<rparr>"

definition nyc_location :: location_spec where
  \<comment> \<open>a configured location without the remote flag\<close>
  "nyc_location =
     \<lparr>loc_name = Some ''NYC'', loc_is_remote = None,
      loc_location = Some ''New York, NY'', loc_distance = Some 25\<rparr>"

definition nyc_config :: config where
  "nyc_config = example_config\<lparr>cfg_locations := [nyc_location]\<rparr>"

definition example_request :: job_request where
  "example_request =
     \<lparr>rq_sinceWhen = ''1w'', rq_keywords = Some [''platform engineer''],
      rq_excludeKeywords = None, rq_isRemote = None, rq_location = None,
      rq_distance = Some 50, rq_requireAllKeywords = False, rq_limit = 5\<rparr>"

definition remote_request :: job_request where
  "remote_request = example_request\<lparr>rq_isRemote := Some True\<rparr>"

definition austin_request :: job_request where
  \<comment> \<open>a remote request that also names a place\<close>
  "austin_request = remote_request\<lparr>rq_location := Some ''Austin, TX''\<rparr>"

definition long_digits :: nat where
  \<comment> \<open>the least number of 4301 digits\<close>
  "long_digits = 10 ^ 4300"

definition long_request :: job_request where
  \<comment> \<open>a request whose lookback matches the pattern and is too long for \<open>int\<close>\<close>
  "long_request = example_request\<lparr>rq_sinceWhen := dec long_digits @ ''w''\<rparr>"

definition no_url_job :: "string \<Rightarrow> job" where
  \<comment> \<open>a record whose missing \<open>job_url\<close> is the NaN object the data frame shares\<close>
  "no_url_job title = [''title'' \<mapsto> PStr title, ''job_url'' \<mapsto> PFloat (FNaN 0)]"

definition failing_scrape :: "scrape_params \<Rightarrow> error + job list" where
  \<comment> \<open>the scraping call raises\<close>
  "failing_scrape params = Inl (External ''ConnectionError'')"

definition ny_scrape :: "scrape_params \<Rightarrow> error + job list" where
  \<comment> \<open>the scraping call returns one record in New York with a low salary\<close>
  "ny_scrape params = Inr [ny_job (PInt 120000)]"

definition no_api :: "usajobs_params \<Rightarrow> error + job list" where
  "no_api params = Inr []"

definition posted_at :: pydatetime where
  "posted_at =
     \<lparr>dt_year = 2024, dt_month = 1, dt_day = 15, dt_hour = 0, dt_minute = 0, dt_second = 0,
      dt_microsecond = 0\<rparr>"

definition nan_job :: job where
  \<comment> \<open>a record without salary and with a timestamp, as a data frame gives them\<close>
  "nan_job =
     [''title'' \<mapsto> PStr ''Platform Engineer'', ''min_amount'' \<mapsto> PFloat (FNaN 0),
      ''max_amount'' \<mapsto> PFloat (FNaN 1), ''date_posted'' \<mapsto> PDatetime posted_at]"

definition nan_scrape :: "scrape_params \<Rightarrow> error + job list" where
  "nan_scrape params = Inr [nan_job]"

section \<open>Text lemmas\<close>

text \<open>
  A character below \<open>A\<close>, or above \<open>Z\<close> and below 0xC0, is its own small letter,
  and up to \<open>Z\<close> the first 26 entries of the table decide: \<open>lower\<close> is evaluated
  with this equation.
\<close>

lemma lower_char_eval:
  "lower_char c =
     (if (of_char c :: nat) < 65 \<or> (90 < (of_char c :: nat) \<and> (of_char c :: nat) < 192) then c
      else if (of_char c :: nat) < 192
      then (case map_of (zip ''ABCDEFGHIJKLMNOPQRSTUVWXYZ'' ''abcdefghijklmnopqrstuvwxyz'') c of
              Some l \<Rightarrow> l | None \<Rightarrow> c)
      else (case map_of (zip upper_chars lower_chars) c of Some l \<Rightarrow> l | None \<Rightarrow> c))"
proof -
  define az where "az = zip ''ABCDEFGHIJKLMNOPQRSTUVWXYZ'' ''abcdefghijklmnopqrstuvwxyz''"
  define hi where "hi = drop 26 upper_chars"
  define lo where "lo = drop 26 lower_chars"
  have tab: "zip upper_chars lower_chars = az @ zip hi lo"
    by (simp add: az_def hi_def lo_def upper_chars_def lower_chars_def)
  have hi: "c \<notin> set hi" if "(of_char c :: nat) < 192"
    using that by (auto simp: hi_def upper_chars_def)
  have len: "length hi = length lo"
    by (simp add: hi_def lo_def upper_chars_def lower_chars_def)
  have none: "map_of (zip hi lo) c = None" if "(of_char c :: nat) < 192"
    using hi [OF that] by (auto simp: map_of_eq_None_iff dest: set_zip_leftD)
  have mid: "map_of (zip upper_chars lower_chars) c = map_of az c" if "(of_char c :: nat) < 192"
    using none [OF that] by (simp add: tab map_add_def split: option.splits)
  have low: "map_of az c = None"
    if "(of_char c :: nat) < 65 \<or> 90 < (of_char c :: nat)"
  proof -
    from that have "c \<notin> set ''ABCDEFGHIJKLMNOPQRSTUVWXYZ''" by auto
    then show ?thesis by (simp add: az_def map_of_eq_None_iff)
  qed
  show ?thesis
  proof (cases "(of_char c :: nat) < 192")
    case True
    show ?thesis
    proof (cases "(of_char c :: nat) < 65 \<or> 90 < (of_char c :: nat)")
      case True
      with \<open>(of_char c :: nat) < 192\<close> low [OF True] mid show ?thesis
        by (simp add: lower_char_def)
    next
      case False
      with True mid show ?thesis
        unfolding lower_char_def az_def by simp
    qed
  next
    case False
    then show ?thesis unfolding lower_char_def by simp
  qed
qed

lemmas text_eval =
  lower_def lower_char_eval upper_chars_def lower_chars_def strip_def strip_with_def
  is_space_def is_digit_def digit_val_def digit_char_def endswith_def get_text_def

lemmas int_eval =
  py_int_def int_strip_def is_int_space_def strip_with_def digits_in_limit_def
  int_max_str_digits_def is_digit_def digit_val_def

lemmas scoring_eval =
  get_or_def mgmt_titles_def senior_ic_titles_def preferred_titles_def bad_titles_def
  good_locations_def good_skills_def red_flags_def large_companies_def any_in_def
  count_in_def is_manager_def is_senior_ic_def is_large_company_def default_scoring_def

lemma digit_char_ok:
  assumes "d < 10"
  shows "is_digit (digit_char d) \<and> digit_val (digit_char d) = d
         \<and> \<not> is_int_space (digit_char d)
         \<and> digit_char d \<noteq> CHR ''+'' \<and> digit_char d \<noteq> CHR ''-'' \<and> digit_char d \<noteq> CHR ''_''"
proof -
  from assms
  have "d = 0 \<or> d = 1 \<or> d = 2 \<or> d = 3 \<or> d = 4 \<or> d = 5 \<or> d = 6 \<or> d = 7 \<or> d = 8 \<or> d = 9"
    by arith
  then show ?thesis
    by (auto simp add: digit_char_def is_digit_def digit_val_def is_int_space_def)
qed

lemma parse_digits_all:
  "ds \<noteq> [] \<Longrightarrow> \<forall>c\<in>set ds. is_digit c \<and> c \<noteq> CHR ''_'' \<Longrightarrow>
   parse_digits acc ds = Some (foldl (\<lambda>a c. 10 * a + digit_val c) acc ds)"
  by (induction acc ds rule: parse_digits.induct) auto

lemma dec_nonempty: "dec n \<noteq> []"
  by (subst dec.simps) simp

lemma dec_digits: "c \<in> set (dec n) \<Longrightarrow> c \<in> digit_char ` {0..<10}"
  by (induction n arbitrary: c rule: dec.induct) (subst (asm) dec.simps, auto split: if_splits)

lemma dec_value: "foldl (\<lambda>a c. 10 * a + digit_val c) 0 (dec n) = n"
proof (induction n rule: dec.induct)
  case (1 n)
  show ?case
  proof (cases "n < 10")
    case True
    then show ?thesis by (subst dec.simps) (simp add: digit_char_ok)
  next
    case False
    with 1 show ?thesis by (subst dec.simps) (simp add: digit_char_ok)
  qed
qed

lemma strip_with_id:
  assumes "s \<noteq> []" "\<not> sp (hd s)" "\<not> sp (last s)"
  shows "strip_with sp s = s"
proof -
  from assms have 1: "dropWhile sp s = s" by (cases s) auto
  from assms have "dropWhile sp (rev s) = rev s"
    by (cases "rev s") (auto simp: last_rev hd_rev)
  with 1 show ?thesis by (simp add: strip_with_def)
qed

lemma dec_chars:
  assumes "c \<in> set (dec n)"
  shows "is_digit c \<and> \<not> is_int_space c
         \<and> c \<noteq> CHR ''+'' \<and> c \<noteq> CHR ''-'' \<and> c \<noteq> CHR ''_''"
proof -
  from dec_digits [OF assms] obtain d where "d < 10" "c = digit_char d" by auto
  then show ?thesis using digit_char_ok [of d] by simp
qed

lemma int_strip_dec: "int_strip (dec n) = dec n"
proof -
  have hd: "hd (dec n) \<in> set (dec n)" and lst: "last (dec n) \<in> set (dec n)"
    using dec_nonempty [of n] by simp_all
  have "strip_with is_int_space (dec n) = dec n"
    using strip_with_id [OF dec_nonempty] dec_chars [OF hd] dec_chars [OF lst] by simp
  then show ?thesis by (simp add: int_strip_def)
qed

lemma filter_digits_dec: "filter is_digit (dec n) = dec n"
  using dec_chars [of _ n] by (simp add: filter_id_conv)

lemma py_int_dec:
  "py_int (dec n) = (if int_max_str_digits < length (dec n) then None else Some (int n))"
proof -
  obtain c cs where cs: "dec n = c # cs" using dec_nonempty [of n] by (cases "dec n") auto
  have c: "c \<noteq> CHR ''+''" "c \<noteq> CHR ''-''" using dec_chars [of c n] cs by simp_all
  have "parse_digits 0 (dec n) = Some n"
    using parse_digits_all [OF dec_nonempty, of n 0] dec_chars [of _ n] dec_value [of n] by simp
  then have lim: "digits_in_limit (dec n) (parse_digits 0 (dec n))
             = (if int_max_str_digits < length (dec n) then None else Some n)"
    by (simp add: digits_in_limit_def filter_digits_dec)
  have "py_int (dec n) = map_option int (digits_in_limit (dec n) (parse_digits 0 (dec n)))"
    using c by (simp add: py_int_def int_strip_dec cs [symmetric] del: parse_digits.simps)
       (simp add: cs)
  with lim show ?thesis by simp
qed

lemma length_dec: "length (dec n) = (if n < 10 then 1 else Suc (length (dec (n div 10))))"
  by (subst dec.simps) simp

lemma length_dec_le: "0 < k \<Longrightarrow> (length (dec n) \<le> k) = (n < 10 ^ k)"
proof (induction k arbitrary: n)
  case 0
  then show ?case by simp
next
  case (Suc k)
  show ?case
  proof (cases "n < 10")
    case True
    have "(1::nat) \<le> 10 ^ k" by simp
    then have "(10::nat) \<le> 10 ^ Suc k" by simp
    with True have "n < 10 ^ Suc k" by linarith
    with True show ?thesis by (simp add: length_dec [of n])
  next
    case False
    show ?thesis
    proof (cases k)
      case 0
      with False show ?thesis by (simp add: length_dec [of n] dec_nonempty)
    next
      case (Suc k')
      then have "(length (dec (n div 10)) \<le> k) = (n div 10 < 10 ^ k)"
        using Suc.IH [of "n div 10"] by simp
      moreover have "(n div 10 < 10 ^ k) = (n < 10 ^ Suc k)"
        by (simp add: less_mult_imp_div_less div_less_iff_less_mult mult.commute)
      ultimately show ?thesis using False by (simp add: length_dec [of n])
    qed
  qed
qed

lemma length_dec_long: "(length (dec n) \<le> int_max_str_digits) = (n < long_digits)"
  unfolding int_max_str_digits_def long_digits_def by (rule length_dec_le) simp

lemma parse_since_when_dec:
  "parse_since_when (dec n @ ''d'')
     = (if n < long_digits then Inr (int n * 24) else Inl ValueError)"
  "parse_since_when (dec n @ ''w'')
     = (if n < long_digits then Inr (int n * 168) else Inl ValueError)"
  using length_dec_long [of n]
  by (auto simp add: parse_since_when_def py_int_dec butlast_append)

lemma valid_since_when_dec:
  "valid_since_when (dec n @ ''d'')" "valid_since_when (dec n @ ''w'')"
  using dec_chars [of _ n] by (simp_all add: valid_since_when_def dec_nonempty list_all_iff)

lemma long_parse: "parse_since_when (dec long_digits @ ''w'') = Inl ValueError"
  by (simp add: parse_since_when_dec)

text \<open>The text tests are the prefix, substring and suffix relations.\<close>

lemma startswith_iff: "startswith s p \<longleftrightarrow> (\<exists>q. s = p @ q)"
  by (induction s p rule: startswith.induct) auto

lemma str_in_iff: "str_in sub s \<longleftrightarrow> (\<exists>p q. s = p @ sub @ q)"
proof (induction s)
  case Nil
  show ?case by auto
next
  case (Cons c cs)
  show ?case
  proof
    assume "str_in sub (c # cs)"
    then consider "startswith (c # cs) sub" | "str_in sub cs" by auto
    then show "\<exists>p q. c # cs = p @ sub @ q"
    proof cases
      case 1
      then obtain q where "c # cs = sub @ q" by (auto simp: startswith_iff)
      then have "c # cs = [] @ sub @ q" by simp
      then show ?thesis by blast
    next
      case 2
      with Cons.IH obtain p q where "cs = p @ sub @ q" by auto
      then have "c # cs = (c # p) @ sub @ q" by simp
      then show ?thesis by blast
    qed
  next
    assume "\<exists>p q. c # cs = p @ sub @ q"
    then obtain p q where pq: "c # cs = p @ sub @ q" by blast
    show "str_in sub (c # cs)"
    proof (cases p)
      case Nil
      with pq have "startswith (c # cs) sub" by (auto simp: startswith_iff)
      then show ?thesis by simp
    next
      case (Cons a p')
      with pq have "cs = p' @ sub @ q" by simp
      with Cons.IH have "str_in sub cs" by blast
      then show ?thesis by simp
    qed
  qed
qed

lemma endswith_iff: "endswith s p \<longleftrightarrow> (\<exists>q. s = q @ p)"
proof -
  have "endswith s p \<longleftrightarrow> (\<exists>q. rev s = rev p @ q)"
    by (simp add: endswith_def startswith_iff)
  also have "\<dots> \<longleftrightarrow> (\<exists>q. s = q @ p)"
  proof
    assume "\<exists>q. rev s = rev p @ q"
    then obtain q where "rev s = rev p @ q" by blast
    then have "s = rev q @ p" by (metis rev_append rev_rev_ident)
    then show "\<exists>q. s = q @ p" by blast
  next
    assume "\<exists>q. s = q @ p"
    then obtain q where "s = q @ p" by blast
    then have "rev s = rev p @ rev q" by simp
    then show "\<exists>q. rev s = rev p @ q" by blast
  qed
  finally show ?thesis .
qed

section \<open>The lookback conversion\<close>

text \<open>
  Claim C9, amended. For every natural number \<open>N\<close> of at most 4300 decimal digits, that
  is below \<open>10 ^ 4300\<close>, the specifier \<open><N>d\<close> parses to \<open>N \<times> 24\<close> hours
  and \<open><N>w\<close> to \<open>N \<times> 168\<close> hours. For a longer \<open>N\<close> the conversion raises
  \<open>ValueError\<close>.
\<close>

theorem parse_since_when_days_weeks:
  "(length (dec n) \<le> int_max_str_digits) = (n < long_digits)
   \<and> (n < long_digits \<longrightarrow>
        parse_since_when (dec n @ ''d'') = Inr (int n * 24)
        \<and> parse_since_when (dec n @ ''w'') = Inr (int n * 168))
   \<and> (long_digits \<le> n \<longrightarrow>
        parse_since_when (dec n @ ''d'') = Inl ValueError
        \<and> parse_since_when (dec n @ ''w'') = Inl ValueError)"
  by (simp add: parse_since_when_dec length_dec_long)

theorem parse_since_when_days_weeks_witness:
  "(3::nat) < long_digits \<and> parse_since_when ''3d'' = Inr 72
   \<and> (12::nat) < long_digits \<and> parse_since_when ''12w'' = Inr 2016
   \<and> long_digits \<le> long_digits
   \<and> parse_since_when (dec long_digits @ ''w'') = Inl ValueError"
proof -
  have small: "(3::nat) < long_digits" "(12::nat) < long_digits"
    using length_dec_long [of 3] length_dec_long [of 12]
    by (simp_all add: dec.simps digit_char_def int_max_str_digits_def)
  have "parse_since_when (dec 3 @ ''d'') = Inr 72" "parse_since_when (dec 12 @ ''w'') = Inr 2016"
    using parse_since_when_days_weeks [of 3] parse_since_when_days_weeks [of 12] small
    by simp_all
  then have days: "parse_since_when ''3d'' = Inr 72" and weeks: "parse_since_when ''12w'' = Inr 2016"
    by (simp_all add: dec.simps digit_char_def)
  have long: "parse_since_when (dec long_digits @ ''w'') = Inl ValueError"
    using parse_since_when_days_weeks [of long_digits] by simp
  from small days weeks long show ?thesis by simp
qed

text \<open>
  The claim as written, for every \<open>N\<close>: the specifier of the least number of 4301
  digits matches the request pattern and does not parse.
\<close>

theorem parse_since_when_counterexample:
  "valid_since_when (dec long_digits @ ''d'')
   \<and> parse_since_when (dec long_digits @ ''d'') = Inl ValueError
   \<and> parse_since_when (dec long_digits @ ''d'') \<noteq> Inr (int long_digits * 24)"
  by (simp add: parse_since_when_dec valid_since_when_dec)

section \<open>The exclusion filter\<close>

text \<open>
  Claim C7. Filtering a list that was already filtered with the same exclude keywords
  gives the same list.
\<close>

theorem filter_jobs_idempotent:
  "filter_jobs fr (filter_jobs fr jobs exclude_list) exclude_list
     = filter_jobs fr jobs exclude_list"
  by (simp add: filter_jobs_def Let_def)

theorem filter_jobs_idempotent_witness:
  "filter_jobs example_repr [sales_job, staff_job] [''SALES''] = [staff_job]
   \<and> filter_jobs example_repr [staff_job] [''SALES''] = [staff_job]"
  using filter_jobs_idempotent [of example_repr "[sales_job, staff_job]" "[''SALES'']"]
  by (simp add: filter_jobs_def text_eval sales_job_def staff_job_def)

section \<open>Scoring and sorting\<close>

lemma set_sorted_reverse: "set (sorted_reverse key xs) = set xs"
  by (simp add: sorted_reverse_def)

lemma sorted_reverse_stable:
  "filter (\<lambda>x. key x = k) (sorted_reverse key xs) = filter (\<lambda>x. key x = k) xs"
proof -
  have "filter (\<lambda>x. key x = k) (sorted_reverse key xs)
        = rev (filter (\<lambda>x. key x = k) (sort_key key (rev xs)))"
    by (simp add: sorted_reverse_def rev_filter)
  also have "\<dots> = rev (filter (\<lambda>x. key x = k) (rev xs))"
    by (simp only: sort_key_stable)
  also have "\<dots> = filter (\<lambda>x. key x = k) xs"
    by (simp add: rev_filter)
  finally show ?thesis .
qed

lemma sorted_reverse_descending: "sorted (rev (map key (sorted_reverse key xs)))"
  by (simp add: sorted_reverse_def rev_map)

lemma score_job_score:
  "score_job fr scoring job ''_score'' = Some (PInt (job_score fr scoring job))"
  by (simp add: score_job_def Let_def)

lemma score_job_flags:
  "score_job fr scoring job ''_is_manager'' = Some (PBool (is_manager fr scoring job))"
  "score_job fr scoring job ''_is_senior_ic'' = Some (PBool (is_senior_ic fr scoring job))"
  by (simp_all add: score_job_def Let_def)

lemma score_key_score_job: "score_key (score_job fr scoring job) = job_score fr scoring job"
  by (simp add: score_key_def score_job_score)

lemma score_field_key:
  "j \<in> set (map (score_job fr scoring) jobs) \<Longrightarrow>
   (j ''_score'' = Some (PInt k)) = (score_key j = k)"
  by (auto simp: score_key_score_job score_job_score)

lemma example_titles:
  "get_text example_repr manager_job ''title'' = ''senior manager''"
  "get_text example_repr director_job ''title'' = ''director''"
  "get_text example_repr staff_job ''title'' = ''staff engineer''"
  by (simp_all add: text_eval manager_job_def director_job_def staff_job_def)

lemma example_scores:
  "job_score example_repr default_scoring manager_job = 25"
  "job_score example_repr default_scoring director_job = 25"
  "job_score example_repr default_scoring staff_job = 10"
  by (simp_all add: job_score_def scoring_eval text_eval manager_job_def director_job_def
      staff_job_def)

text \<open>
  Claim C8. The records of any one score stand in the sorted result in the order they had
  in the scored list before the sort, and the result is in descending order of score.
\<close>

theorem score_jobs_stable:
  "filter (\<lambda>j. j ''_score'' = Some (PInt k)) (score_jobs fr scoring jobs include_list)
     = filter (\<lambda>j. j ''_score'' = Some (PInt k)) (map (score_job fr scoring) jobs)
   \<and> sorted (rev (map score_key (score_jobs fr scoring jobs include_list)))"
proof -
  let ?xs = "map (score_job fr scoring) jobs"
  have "filter (\<lambda>j. j ''_score'' = Some (PInt k)) (sorted_reverse score_key ?xs)
        = filter (\<lambda>j. score_key j = k) (sorted_reverse score_key ?xs)"
    by (rule filter_cong [OF refl]) (simp only: set_sorted_reverse score_field_key)
  also have "\<dots> = filter (\<lambda>j. score_key j = k) ?xs"
    by (rule sorted_reverse_stable)
  also have "\<dots> = filter (\<lambda>j. j ''_score'' = Some (PInt k)) ?xs"
    by (rule filter_cong [OF refl]) (simp only: score_field_key)
  finally show ?thesis
    by (simp add: score_jobs_def sorted_reverse_descending)
qed

theorem score_jobs_stable_witness:
  "score_jobs example_repr default_scoring [staff_job, manager_job, director_job] []
     = map (score_job example_repr default_scoring) [manager_job, director_job, staff_job]
   \<and> map score_key
         (score_jobs example_repr default_scoring [staff_job, manager_job, director_job] [])
       = [25, 25, 10]"
  using score_jobs_stable [of 25 example_repr default_scoring
          "[staff_job, manager_job, director_job]" "[]"]
  by (simp add: score_jobs_def sorted_reverse_def score_key_score_job score_job_score
      example_scores)

text \<open>
  Claim C10. Every record that leaves the scoring engine carries both flags as booleans
  that are never both true, and a title matching the management keywords gives
  \<open>_is_manager\<close> true and \<open>_is_senior_ic\<close> false.
\<close>

theorem score_jobs_flags_exclusive:
  "(job \<in> set (score_jobs fr scoring jobs include_list) \<longrightarrow>
      (\<exists>m s. job ''_is_manager'' = Some (PBool m) \<and> job ''_is_senior_ic'' = Some (PBool s)
             \<and> \<not> (m \<and> s)))
   \<and> (any_in (mgmt_titles scoring) (get_text fr src ''title'') \<longrightarrow>
        score_job fr scoring src ''_is_manager'' = Some (PBool True)
        \<and> score_job fr scoring src ''_is_senior_ic'' = Some (PBool False))"
proof -
  have "\<exists>m s. job ''_is_manager'' = Some (PBool m) \<and> job ''_is_senior_ic'' = Some (PBool s)
             \<and> \<not> (m \<and> s)"
    if "job \<in> set (score_jobs fr scoring jobs include_list)"
  proof -
    from that obtain src where "job = score_job fr scoring src"
      by (auto simp: score_jobs_def set_sorted_reverse)
    then show ?thesis
      by (auto simp: score_job_flags is_senior_ic_def)
  qed
  moreover have "score_job fr scoring src ''_is_manager'' = Some (PBool True)
        \<and> score_job fr scoring src ''_is_senior_ic'' = Some (PBool False)"
    if "any_in (mgmt_titles scoring) (get_text fr src ''title'')"
    using that by (simp add: score_job_flags is_senior_ic_def is_manager_def)
  ultimately show ?thesis by blast
qed

theorem score_jobs_flags_exclusive_witness:
  "score_job example_repr default_scoring manager_job
     \<in> set (score_jobs example_repr default_scoring [manager_job] [])
   \<and> any_in (mgmt_titles default_scoring) (get_text example_repr manager_job ''title'')
   \<and> any_in (senior_ic_titles default_scoring) (get_text example_repr manager_job ''title'')
   \<and> score_job example_repr default_scoring manager_job ''_is_manager'' = Some (PBool True)
   \<and> score_job example_repr default_scoring manager_job ''_is_senior_ic'' = Some (PBool False)"
  using score_jobs_flags_exclusive [of "score_job example_repr default_scoring manager_job"
          example_repr default_scoring "[manager_job]" "[]" manager_job]
  by (simp add: score_jobs_def sorted_reverse_def example_titles any_in_def mgmt_titles_def
      senior_ic_titles_def get_or_def default_scoring_def)

section \<open>Deduplication\<close>

lemma same_key_sym: "same_key a b = same_key b a"
proof -
  have "same_object a b = same_object b a"
    by (induction a b rule: same_object.induct) auto
  moreover have "py_eq a b = py_eq b a"
    by (auto simp: py_eq_def split: option.splits)
  ultimately show ?thesis by (simp add: same_key_def)
qed

lemma same_object_nan: "same_object a b \<Longrightarrow> \<exists>i. a = PFloat (FNaN i) \<and> b = PFloat (FNaN i)"
  by (induction a b rule: same_object.induct) auto

lemma py_eq_no_nan: "py_eq a b \<Longrightarrow> a \<noteq> PFloat (FNaN i) \<and> b \<noteq> PFloat (FNaN i)"
  by (auto simp: py_eq_def split: option.splits)

lemma py_eq_trans: "py_eq a b \<Longrightarrow> py_eq b c \<Longrightarrow> py_eq a c"
  by (auto simp: py_eq_def split: option.splits)

lemma same_key_trans: "same_key a b \<Longrightarrow> same_key b c \<Longrightarrow> same_key a c"
  unfolding same_key_def
  using same_object_nan py_eq_no_nan py_eq_trans by metis

lemma same_key_truthy: "same_key a b \<Longrightarrow> truthy a = truthy b"
proof -
  assume "same_key a b"
  then consider "same_object a b" | "py_eq a b" by (auto simp: same_key_def)
  then show ?thesis
  proof cases
    case 1
    then show ?thesis using same_object_nan by fastforce
  next
    case 2
    then show ?thesis by (cases a; cases b) (auto simp: py_eq_def split: if_splits)
  qed
qed

lemma same_key_refl: "truthy u \<Longrightarrow> same_key u u"
proof (cases u)
  case (PFloat f)
  then show ?thesis by (cases f) (auto simp: same_key_def py_eq_def)
qed (auto simp: same_key_def py_eq_def)

lemma dedupe_loop_no_url:
  "filter (\<lambda>j. \<not> get_truthy j ''job_url'') (dedupe_loop seen jobs)
   = filter (\<lambda>j. \<not> get_truthy j ''job_url'') jobs"
  by (induction jobs arbitrary: seen) (auto simp: get_truthy_def split: option.splits)

lemma dedupe_loop_url:
  assumes "truthy u"
  shows "filter (url_is u) (dedupe_loop seen jobs)
         = (if set_has seen u then [] else take 1 (filter (url_is u) jobs))"
proof (induction jobs arbitrary: seen)
  case Nil
  show ?case by simp
next
  case (Cons job jobs)
  show ?case
  proof (cases "job ''job_url''")
    case None
    then have "\<not> url_is u job" by (simp add: url_is_def)
    with None show ?thesis by (simp add: Cons.IH)
  next
    case (Some v)
    show ?thesis
    proof (cases "same_key v u")
      case True
      then have tv: "truthy v" using assms same_key_truthy by blast
      have seen_eq: "set_has seen v = set_has seen u"
        unfolding set_has_def list_ex_iff
        using True by (metis same_key_sym same_key_trans)
      from True have uv: "same_key u v" by (simp add: same_key_sym)
      have "url_is u job" using Some True by (simp add: url_is_def)
      then show ?thesis using Some tv seen_eq uv
        by (simp add: Cons.IH set_has_def)
    next
      case False
      then have uv: "\<not> same_key u v" by (simp add: same_key_sym)
      have "\<not> url_is u job" using Some False by (simp add: url_is_def)
      then show ?thesis using Some uv
        by (simp add: Cons.IH set_has_def)
    qed
  qed
qed

text \<open>
  What deduplication does: of the records whose \<open>job_url\<close> a set takes for one true
  value, exactly the first is kept; the records whose \<open>job_url\<close> is absent or false
  (\<open>None\<close>, the empty string) are all kept, in their order.
\<close>

lemma dedupe_jobs_first_only:
  "(truthy u \<longrightarrow> filter (url_is u) (dedupe_jobs jobs) = take 1 (filter (url_is u) jobs))
   \<and> filter (\<lambda>j. \<not> get_truthy j ''job_url'') (dedupe_jobs jobs)
       = filter (\<lambda>j. \<not> get_truthy j ''job_url'') jobs"
  by (simp add: dedupe_jobs_def dedupe_loop_url dedupe_loop_no_url set_has_def)

lemma dedupe_jobs_example:
  "dedupe_jobs [sales_job, manager_job, staff_job, sales_job, director_job]
     = [sales_job, manager_job, staff_job, sales_job]"
  by (simp add: dedupe_jobs_def set_has_def same_key_def py_eq_def sales_job_def
      manager_job_def staff_job_def director_job_def)

text \<open>
  Claim C2. Of two records with the same non-empty \<open>job_url\<close> only the first survives,
  and a record without \<open>job_url\<close> is never removed. The code keeps the second half
  for a \<open>job_url\<close> that is absent, \<open>None\<close> or empty, and breaks it for the missing
  value of a data frame: NaN is true, the set finds the shared NaN object, and of two
  records without URL the second is dropped.
\<close>

theorem dedupe_jobs_nan_url:
  "no_url_job ''Platform Engineer'' ''job_url'' = Some (PFloat (FNaN 0))
   \<and> no_url_job ''Data Analyst'' ''job_url'' = Some (PFloat (FNaN 0))
   \<and> dedupe_jobs [no_url_job ''Platform Engineer'', no_url_job ''Data Analyst'']
       = [no_url_job ''Platform Engineer'']"
  by (simp add: dedupe_jobs_def set_has_def same_key_def no_url_job_def)

section \<open>Remote validation of one list\<close>

lemmas remote_eval =
  location_text_def is_generic_def generic_locations_def has_state_def state_abbrevs_def
  salary_of_def amount_or_zero_def py_max_def f_ge_def validate_remote_job_def
  default_salary_threshold_def

lemma f_ge_py_max:
  "\<not> is_nan lo \<Longrightarrow> \<not> is_nan hi \<Longrightarrow>
   f_ge (py_max lo hi) (FFin t) = (f_ge lo (FFin t) \<or> f_ge hi (FFin t))"
  by (cases lo; cases hi) (auto simp: py_max_def f_ge_def)

lemma not_specific_empty: "\<not> str_in '','' [] \<and> \<not> has_state []"
  by (simp add: has_state_def state_abbrevs_def endswith_def)

lemma validate_remote_jobs_each:
  "validate_remote_jobs fr t jobs = Inr validated \<Longrightarrow>
   validated = concat (map (\<lambda>job. keep_or_drop (validate_remote_job fr t job)) jobs)"
  by (induction jobs arbitrary: validated)
     (auto simp: keep_or_drop_def split: sum.splits option.splits)

text \<open>
  Claim C1, amended. In remote validation a record whose location text holds a generic
  marker is kept whatever its salary. A record whose location text holds a comma or a
  state abbreviation and no generic marker is kept, with \<open>_high_salary\<close> true,
  when its minimum or its maximum salary is at least 150,000, and dropped when both are
  below; a missing or zero amount counts as 0, and amounts that are not numbers (NaN) are
  left aside. The list function applies this record by record.
\<close>

theorem validate_remote_job_by_salary:
  "(is_generic (location_text fr job) \<longrightarrow>
      validate_remote_job fr t job = Inr (Some (job(''_remote_validated'' \<mapsto> PBool True))))
   \<and> (\<not> is_generic (location_text fr job)
       \<and> (str_in '','' (location_text fr job) \<or> has_state (location_text fr job))
       \<and> amount_or_zero job ''min_amount'' = Some lo \<and> \<not> is_nan lo
       \<and> amount_or_zero job ''max_amount'' = Some hi \<and> \<not> is_nan hi \<longrightarrow>
      validate_remote_job fr default_salary_threshold job =
        Inr (if f_ge lo (FFin 150000) \<or> f_ge hi (FFin 150000)
             then Some (job(''_remote_validated'' \<mapsto> PBool False,
                            ''_high_salary'' \<mapsto> PBool True))
             else None))
   \<and> (validate_remote_jobs fr t jobs = Inr validated \<longrightarrow>
        validated = concat (map (\<lambda>job. keep_or_drop (validate_remote_job fr t job)) jobs))"
proof (intro conjI impI)
  assume "is_generic (location_text fr job)"
  then show "validate_remote_job fr t job = Inr (Some (job(''_remote_validated'' \<mapsto> PBool True)))"
    by (simp add: validate_remote_job_def Let_def)
next
  assume a: "\<not> is_generic (location_text fr job)
       \<and> (str_in '','' (location_text fr job) \<or> has_state (location_text fr job))
       \<and> amount_or_zero job ''min_amount'' = Some lo \<and> \<not> is_nan lo
       \<and> amount_or_zero job ''max_amount'' = Some hi \<and> \<not> is_nan hi"
  then have ne: "location_text fr job \<noteq> []" using not_specific_empty by auto
  from a have sal: "salary_of job = Inr (py_max lo hi)" by (simp add: salary_of_def)
  have ge: "f_ge (py_max lo hi) (FFin 150000) = (f_ge lo (FFin 150000) \<or> f_ge hi (FFin 150000))"
    using a f_ge_py_max by blast
  show "validate_remote_job fr default_salary_threshold job =
        Inr (if f_ge lo (FFin 150000) \<or> f_ge hi (FFin 150000)
             then Some (job(''_remote_validated'' \<mapsto> PBool False,
                            ''_high_salary'' \<mapsto> PBool True))
             else None)"
    using a ne sal ge
    by (auto simp add: validate_remote_job_def Let_def default_salary_threshold_def)
next
  assume "validate_remote_jobs fr t jobs = Inr validated"
  then show "validated = concat (map (\<lambda>job. keep_or_drop (validate_remote_job fr t job)) jobs)"
    by (rule validate_remote_jobs_each)
qed

lemma example_locations:
  "location_text fr (ny_job a) = ''new york, ny''"
  "location_text fr ny_min_job = ''new york, ny''"
  "location_text fr nan_min_job = ''new york, ny''"
  "location_text fr (remote_job a) = ''remote''"
  by (simp_all add: location_text_def text_eval ny_job_def ny_min_job_def nan_min_job_def remote_job_def)

lemma example_specific:
  "\<not> is_generic ''new york, ny''" "str_in '','' ''new york, ny''" "has_state ''new york, ny''"
  "is_generic ''remote''"
  by (simp_all add: is_generic_def generic_locations_def has_state_def state_abbrevs_def endswith_def)

theorem validate_remote_job_by_salary_witness:
  "validate_remote_jobs example_repr default_salary_threshold
      [ny_job (PInt 120000), ny_job (PInt 160000), remote_job (PInt 120000), remote_job PNone]
    = Inr [(ny_job (PInt 160000))(''_remote_validated'' \<mapsto> PBool False, ''_high_salary'' \<mapsto> PBool True),
           (remote_job (PInt 120000))(''_remote_validated'' \<mapsto> PBool True),
           (remote_job PNone)(''_remote_validated'' \<mapsto> PBool True)]
   \<and> validate_remote_job example_repr default_salary_threshold (ny_job (PInt 120000)) = Inr None
   \<and> is_generic (location_text example_repr (remote_job (PInt 120000)))
   \<and> str_in '','' (location_text example_repr (ny_job (PInt 120000)))"
  using validate_remote_job_by_salary [of example_repr "ny_job (PInt 120000)" default_salary_threshold
          "FFin 0" "FFin 120000"
          "[ny_job (PInt 120000), ny_job (PInt 160000), remote_job (PInt 120000), remote_job PNone]"
          "[(ny_job (PInt 160000))(''_remote_validated'' \<mapsto> PBool False, ''_high_salary'' \<mapsto> PBool True),
           (remote_job (PInt 120000))(''_remote_validated'' \<mapsto> PBool True),
           (remote_job PNone)(''_remote_validated'' \<mapsto> PBool True)]"]
        validate_remote_job_by_salary [of example_repr "remote_job (PInt 120000)" default_salary_threshold]
  by (simp add: remote_eval text_eval Let_def ny_job_def remote_job_def)

text \<open>
  The claim as written speaks of the maximum salary alone: a record in New York with a
  maximum of 120,000 and a minimum of 160,000 is kept.
\<close>

theorem validate_remote_jobs_counterexample:
  "str_in '','' (location_text example_repr ny_min_job)
   \<and> \<not> is_generic (location_text example_repr ny_min_job)
   \<and> ny_min_job ''max_amount'' = Some (PInt 120000)
   \<and> validate_remote_jobs example_repr default_salary_threshold [ny_min_job]
       = Inr [ny_min_job(''_remote_validated'' \<mapsto> PBool False, ''_high_salary'' \<mapsto> PBool True)]"
  by (simp add: remote_eval text_eval Let_def ny_min_job_def)

text \<open>
  A missing minimum that arrives as NaN is not replaced by 0 (NaN is true), and
  \<open>max(nan, 160000.0)\<close> is NaN: the record is dropped in spite of its maximum.
\<close>

lemma validate_remote_jobs_nan_min:
  "validate_remote_jobs example_repr default_salary_threshold [nan_min_job] = Inr []"
  by (simp add: remote_eval text_eval Let_def nan_min_job_def)

section \<open>The multi-site adapter\<close>


lemma parse_example: "parse_since_when ''1w'' = Inr 168"
  by (simp add: parse_since_when_def int_eval)



lemma example_request_fields:
  "rq_sinceWhen example_request = ''1w''" "rq_limit example_request = 5"
  "rq_isRemote example_request = None" "rq_location example_request = None"
  "rq_distance example_request = Some 50" "rq_excludeKeywords example_request = None"
  "rq_requireAllKeywords example_request = False"
  "keywords_of example_request = [''platform engineer'']"
  by (simp_all add: example_request_def keywords_of_def)



section \<open>The request boundary\<close>

text \<open>
  Claim C6. Whatever exception the \<open>try\<close> block of a handler ends with, the handler
  returns the response with \<open>error = true\<close> and no jobs; in every case it returns a
  response, which is sent with status 200. The block of \<open>search_all\<close> ends with an
  exception exactly when the lookback conversion raises, which it does for a specifier of
  more than 4300 digits; the block of \<open>get_jobs\<close> also when the scraping call or the
  remote validation raises. (\<open>except Exception\<close> is modelled for the exceptions of the
  model, all of them subclasses of \<open>Exception\<close>.)
\<close>

theorem handlers_never_fail:
  "(get_jobs_try cfg scrape api fr request = Inl e \<longrightarrow>
      get_jobs cfg scrape api fr request = \<lparr>http_status = 200, http_body = error_response\<rparr>)
   \<and> (search_all_try cfg scrape api fr request = Inl e \<longrightarrow>
      search_all cfg scrape api fr request = \<lparr>http_status = 200, http_body = error_response\<rparr>)
   \<and> (search_all_try cfg scrape api fr request = Inl e)
       = (parse_since_when (rq_sinceWhen request) = Inl e)
   \<and> (parse_since_when (rq_sinceWhen request) = Inl e \<longrightarrow>
        get_jobs_try cfg scrape api fr request = Inl e)
   \<and> http_status (get_jobs cfg scrape api fr request) = 200
   \<and> http_status (search_all cfg scrape api fr request) = 200
   \<and> rs_error error_response \<and> rs_jobs error_response = []"
proof (intro conjI impI)
  assume "get_jobs_try cfg scrape api fr request = Inl e"
  then show "get_jobs cfg scrape api fr request
               = \<lparr>http_status = 200, http_body = error_response\<rparr>"
    by (simp add: get_jobs_def)
next
  assume "search_all_try cfg scrape api fr request = Inl e"
  then show "search_all cfg scrape api fr request
               = \<lparr>http_status = 200, http_body = error_response\<rparr>"
    by (simp add: search_all_def)
next
  show "(search_all_try cfg scrape api fr request = Inl e)
        = (parse_since_when (rq_sinceWhen request) = Inl e)"
    by (cases "parse_since_when (rq_sinceWhen request)")
       (simp_all add: search_all_try_def Let_def)
next
  assume "parse_since_when (rq_sinceWhen request) = Inl e"
  then show "get_jobs_try cfg scrape api fr request = Inl e"
    by (simp add: get_jobs_try_def)
next
  show "http_status (get_jobs cfg scrape api fr request) = 200"
    by (simp add: get_jobs_def split: sum.splits)
next
  show "http_status (search_all cfg scrape api fr request) = 200"
    by (simp add: search_all_def split: sum.splits)
qed (simp_all add: error_response_def)

lemma get_jobs_try_failing:
  "get_jobs_try example_config failing_scrape no_api example_repr example_request
     = Inl (External ''ConnectionError'')"
  by (simp add: get_jobs_try_def example_request_def parse_example scrape_single_location_def
      failing_scrape_def)

lemma long_request_valid:
  "rq_sinceWhen long_request = dec long_digits @ ''w''"
  "valid_since_when (rq_sinceWhen long_request)"
  "parse_since_when (rq_sinceWhen long_request) = Inl ValueError"
  by (simp_all add: long_request_def valid_since_when_dec long_parse)

lemma example_request_valid: "valid_since_when (rq_sinceWhen example_request)"
  by (simp add: example_request_def valid_since_when_def is_digit_def)

theorem handlers_never_fail_witness:
  "valid_since_when (rq_sinceWhen example_request)
   \<and> get_jobs_try example_config failing_scrape no_api example_repr example_request
     = Inl (External ''ConnectionError'')
   \<and> get_jobs example_config failing_scrape no_api example_repr example_request
     = \<lparr>http_status = 200,
        http_body = \<lparr>rs_error = True, rs_jobs = [], rs_locations_searched = None\<rparr>\<rparr>
   \<and> valid_since_when (rq_sinceWhen long_request)
   \<and> parse_since_when (rq_sinceWhen long_request) = Inl ValueError
   \<and> search_all_try example_config ny_scrape no_api example_repr long_request = Inl ValueError
   \<and> search_all example_config ny_scrape no_api example_repr long_request
     = \<lparr>http_status = 200,
        http_body = \<lparr>rs_error = True, rs_jobs = [], rs_locations_searched = None\<rparr>\<rparr>
   \<and> get_jobs example_config ny_scrape no_api example_repr long_request
     = \<lparr>http_status = 200,
        http_body = \<lparr>rs_error = True, rs_jobs = [], rs_locations_searched = None\<rparr>\<rparr>"
proof -
  have first: "get_jobs example_config failing_scrape no_api example_repr example_request
     = \<lparr>http_status = 200, http_body = error_response\<rparr>"
    using handlers_never_fail [of example_config failing_scrape no_api example_repr
            example_request "External ''ConnectionError''"]
    by (simp add: get_jobs_try_failing)
  have long: "search_all_try example_config ny_scrape no_api example_repr long_request
                = Inl ValueError"
       "search_all example_config ny_scrape no_api example_repr long_request
          = \<lparr>http_status = 200, http_body = error_response\<rparr>"
       "get_jobs example_config ny_scrape no_api example_repr long_request
          = \<lparr>http_status = 200, http_body = error_response\<rparr>"
    using handlers_never_fail [of example_config ny_scrape no_api example_repr long_request
            ValueError]
    by (simp_all add: long_request_valid long_parse)
  from first long show ?thesis
    by (simp add: get_jobs_try_failing long_request_valid long_parse valid_since_when_dec
        example_request_valid error_response_def)
qed

section \<open>The multi-location fan-out\<close>

text \<open>
  Claim C5, amended. In the multi-location fan-out, remote validation is applied inside
  the loop, to the records the multi-site adapter returned for one location, exactly when
  that location's own remote flag is set; the configured locations decide, and the
  request's remote flag is used only for the default location made when none is
  configured and the request names no place. The merged list then goes through
  deduplication, the exclusion filter, the AND-mode filter, scoring and sort,
  sanitisation and truncation, in this order.
\<close>

theorem search_all_steps:
  "(parse_since_when (rq_sinceWhen request) = Inr hours_old \<longrightarrow>
      http_body (search_all cfg scrape api fr request) =
        \<lparr>rs_error = False,
         rs_jobs =
           py_take (rq_limit request)
             (clean_job_data
               (score_jobs fr (cfg_scoring cfg)
                 (and_mode fr request
                   (filter_jobs fr
                     (dedupe_jobs
                       (merged_jobs cfg scrape api fr (search_term_of request) hours_old
                         (locations_of cfg request)))
                     (exclude_list_of cfg request)))
                 (cfg_include_keywords cfg))),
         rs_locations_searched =
           Some (map (\<lambda>loc. get_or (loc_name loc) ''unknown'') (locations_of cfg request))\<rparr>)
   \<and> (\<exists>others. merged_jobs cfg scrape api fr search_term hours locations =
         concat (map (search_location cfg scrape fr search_term hours) locations) @ others)
   \<and> (scrape_single_location cfg scrape search_term hours (cfg_results_wanted cfg)
         (get_or (loc_is_remote loc) False) (loc_location loc) (get_or (loc_distance loc) 50)
         = Inr jobs \<longrightarrow>
       search_location cfg scrape fr search_term hours loc =
         tag_jobs (get_or (loc_name loc) ''unknown'')
           (if get_or (loc_is_remote loc) False
            then (case validate_remote_jobs fr default_salary_threshold jobs of
                    Inl e \<Rightarrow> [] | Inr validated \<Rightarrow> validated)
            else jobs))
   \<and> (cfg_locations cfg \<noteq> [] \<longrightarrow> locations_of cfg request = cfg_locations cfg)
   \<and> (cfg_locations cfg = [] \<and> \<not> nonempty (rq_location request) \<longrightarrow>
        map loc_is_remote (locations_of cfg request) = [Some (rq_isRemote request = Some True)])
   \<and> (cfg_locations cfg = [] \<and> nonempty (rq_location request) \<longrightarrow>
        map loc_is_remote (locations_of cfg request) = [None])"
proof (intro conjI impI)
  assume "parse_since_when (rq_sinceWhen request) = Inr hours_old"
  then show "http_body (search_all cfg scrape api fr request) =
        \<lparr>rs_error = False,
         rs_jobs =
           py_take (rq_limit request)
             (clean_job_data
               (score_jobs fr (cfg_scoring cfg)
                 (and_mode fr request
                   (filter_jobs fr
                     (dedupe_jobs
                       (merged_jobs cfg scrape api fr (search_term_of request) hours_old
                         (locations_of cfg request)))
                     (exclude_list_of cfg request)))
                 (cfg_include_keywords cfg))),
         rs_locations_searched =
           Some (map (\<lambda>loc. get_or (loc_name loc) ''unknown'') (locations_of cfg request))\<rparr>"
    by (simp add: search_all_def search_all_try_def finish_jobs_def Let_def)
next
  show "\<exists>others. merged_jobs cfg scrape api fr search_term hours locations =
         concat (map (search_location cfg scrape fr search_term hours) locations) @ others"
    by (simp add: merged_jobs_def)
next
  assume "scrape_single_location cfg scrape search_term hours (cfg_results_wanted cfg)
         (get_or (loc_is_remote loc) False) (loc_location loc) (get_or (loc_distance loc) 50)
         = Inr jobs"
  then show "search_location cfg scrape fr search_term hours loc =
         tag_jobs (get_or (loc_name loc) ''unknown'')
           (if get_or (loc_is_remote loc) False
            then (case validate_remote_jobs fr default_salary_threshold jobs of
                    Inl e \<Rightarrow> [] | Inr validated \<Rightarrow> validated)
            else jobs)"
    by (simp add: search_location_def validate_if_def Let_def tag_jobs_def split: sum.splits)
next
  assume "cfg_locations cfg \<noteq> []"
  then show "locations_of cfg request = cfg_locations cfg"
    by (simp add: locations_of_def)
next
  assume "cfg_locations cfg = [] \<and> \<not> nonempty (rq_location request)"
  then show "map loc_is_remote (locations_of cfg request) = [Some (rq_isRemote request = Some True)]"
    by (simp add: locations_of_def)
next
  assume "cfg_locations cfg = [] \<and> nonempty (rq_location request)"
  then show "map loc_is_remote (locations_of cfg request) = [None]"
    by (simp add: locations_of_def)
qed

lemma ny_dropped:
  "validate_remote_jobs example_repr default_salary_threshold [ny_job (PInt 120000)] = Inr []"
  by (simp add: remote_eval text_eval Let_def ny_job_def)

lemma nyc_search:
  "search_location nyc_config ny_scrape example_repr ''platform engineer'' 168 nyc_location
     = [(ny_job (PInt 120000))(''_location_name'' \<mapsto> PStr ''NYC'')]"
  by (simp add: search_location_def scrape_single_location_def ny_scrape_def nyc_location_def
      get_or_def tag_jobs_def validate_if_def)

lemma remote_request_fields:
  "rq_sinceWhen remote_request = ''1w''" "rq_limit remote_request = 5"
  "rq_isRemote remote_request = Some True" "rq_location remote_request = None"
  "rq_distance remote_request = Some 50" "rq_excludeKeywords remote_request = None"
  "rq_requireAllKeywords remote_request = False"
  "keywords_of remote_request = [''platform engineer'']"
  by (simp_all add: remote_request_def example_request_def keywords_of_def)

lemma nyc_config_fields:
  "cfg_locations nyc_config = [nyc_location]" "cfg_exclude_keywords nyc_config = []"
  "cfg_scoring nyc_config = default_scoring" "cfg_include_keywords nyc_config = []"
  "usajobs_on nyc_config = False" "cfg_results_wanted nyc_config = 50"
  by (simp_all add: nyc_config_def example_config_def usajobs_on_def)

lemma nyc_response:
  "http_body (search_all nyc_config ny_scrape no_api example_repr remote_request)
     = \<lparr>rs_error = False,
        rs_jobs = [clean_job (score_job example_repr default_scoring
                     ((ny_job (PInt 120000))(''_location_name'' \<mapsto> PStr ''NYC'')))],
        rs_locations_searched = Some [''NYC'']\<rparr>"
  by (simp add: search_all_def search_all_try_def remote_request_fields nyc_config_fields
      parse_example search_term_of_def locations_of_def merged_jobs_def nyc_search
      dedupe_jobs_def ny_job_def finish_jobs_def filter_jobs_def exclude_list_of_def
      and_mode_def score_jobs_def sorted_reverse_def clean_job_data_def py_take_def)
     (simp add: nyc_location_def get_or_def)

text \<open>
  The claim as written: the request asks for remote, remote validation would drop the
  record, and the response of the fan-out over a configured city still holds it.
\<close>

theorem search_all_counterexample:
  "rq_isRemote remote_request = Some True
   \<and> validate_remote_jobs example_repr default_salary_threshold [ny_job (PInt 120000)] = Inr []
   \<and> rs_jobs (http_body (search_all nyc_config ny_scrape no_api example_repr remote_request))
       = [clean_job (score_job example_repr default_scoring
            ((ny_job (PInt 120000))(''_location_name'' \<mapsto> PStr ''NYC'')))]"
  by (simp add: remote_request_fields ny_dropped nyc_response del: validate_remote_jobs.simps)

theorem search_all_steps_witness:
  "parse_since_when (rq_sinceWhen remote_request) = Inr 168
   \<and> scrape_single_location nyc_config ny_scrape ''platform engineer'' 168 50 False
        (Some ''New York, NY'') 25 = Inr [ny_job (PInt 120000)]
   \<and> cfg_locations nyc_config \<noteq> []
   \<and> locations_of nyc_config remote_request = [nyc_location]
   \<and> search_location nyc_config ny_scrape example_repr ''platform engineer'' 168 nyc_location
       = tag_jobs ''NYC'' [ny_job (PInt 120000)]
   \<and> cfg_locations example_config = []
   \<and> map loc_is_remote (locations_of example_config remote_request) = [Some True]
   \<and> nonempty (rq_location austin_request)
   \<and> rq_isRemote austin_request = Some True
   \<and> map loc_is_remote (locations_of example_config austin_request) = [None]"
  using search_all_steps [of remote_request 168 nyc_config ny_scrape no_api example_repr
          "''platform engineer''" 168 "[nyc_location]" nyc_location "[ny_job (PInt 120000)]"]
        search_all_steps [of remote_request 168 example_config ny_scrape no_api example_repr
          "''platform engineer''" 168 "[]" nyc_location "[]"]
        search_all_steps [of austin_request 168 example_config ny_scrape no_api example_repr
          "''platform engineer''" 168 "[]" nyc_location "[]"]
  by (simp add: remote_request_fields nyc_config_fields parse_example nyc_search tag_jobs_def
      scrape_single_location_def ny_scrape_def locations_of_def nonempty_def austin_request_def)
     (simp add: example_config_def nyc_location_def get_or_def)

section \<open>The frame of the pipeline\<close>

lemma same_source_trans: "same_source a b \<Longrightarrow> same_source b c \<Longrightarrow> same_source a c"
  by (simp add: same_source_def)

lemma same_source_refl: "same_source a a"
  by (simp add: same_source_def)

lemma sanitised_clean_job: "same_source a b \<Longrightarrow> sanitised a (clean_job b)"
  by (simp add: same_source_def sanitised_def clean_job_def)

lemma same_source_score_job: "same_source job (score_job fr scoring job)"
  by (simp add: same_source_def extension_fields_def score_job_def Let_def)

lemma same_source_tag: "same_source job (job(''_location_name'' \<mapsto> v))"
  by (simp add: same_source_def extension_fields_def)

lemma same_source_validate_job:
  "validate_remote_job fr t job = Inr (Some job') \<Longrightarrow> same_source job job'"
  by (auto simp add: validate_remote_job_def Let_def same_source_def extension_fields_def
      split: if_splits sum.splits)

lemma same_source_validate_jobs:
  "validate_remote_jobs fr t jobs = Inr validated \<Longrightarrow> j \<in> set validated \<Longrightarrow>
   \<exists>r\<in>set jobs. same_source r j"
proof (induction jobs arbitrary: validated)
  case Nil
  then show ?case by simp
next
  case (Cons job jobs)
  from Cons.prems(1) obtain kept rest where
    k: "validate_remote_job fr t job = Inr kept" and
    r: "validate_remote_jobs fr t jobs = Inr rest" and
    v: "validated = (case kept of None \<Rightarrow> rest | Some job' \<Rightarrow> job' # rest)"
    by (auto split: sum.splits)
  show ?case
  proof (cases "j \<in> set rest")
    case True
    with Cons.IH [OF r] show ?thesis by auto
  next
    case False
    with v Cons.prems(2) have "kept = Some j" by (cases kept) auto
    with k show ?thesis using same_source_validate_job by auto
  qed
qed

lemma set_dedupe_loop: "set (dedupe_loop seen jobs) \<subseteq> set jobs"
  by (induction jobs arbitrary: seen) (auto split: option.splits if_splits)

lemma set_filter_jobs: "set (filter_jobs fr jobs ex) \<subseteq> set jobs"
  by (auto simp: filter_jobs_def Let_def)

lemma set_and_mode: "set (and_mode fr request jobs) \<subseteq> set jobs"
  by (auto simp: and_mode_def and_filter_def Let_def)

lemma set_py_take: "set (py_take n xs) \<subseteq> set xs"
  by (auto simp: py_take_def dest: in_set_takeD)

lemma finish_jobs_frame:
  assumes "j \<in> set (finish_jobs cfg fr request xs)"
  shows "\<exists>m\<in>set xs. sanitised m j"
proof -
  let ?matched = "and_mode fr request (filter_jobs fr xs (exclude_list_of cfg request))"
  let ?scored = "score_jobs fr (cfg_scoring cfg) ?matched (cfg_include_keywords cfg)"
  from assms have "j \<in> set (py_take (rq_limit request) (clean_job_data ?scored))"
    by (simp add: finish_jobs_def Let_def)
  then have "j \<in> set (clean_job_data ?scored)"
    by (rule subsetD [OF set_py_take])
  then obtain s where s: "s \<in> set ?scored" and j: "j = clean_job s"
    unfolding clean_job_data_def by auto
  from s have "s \<in> score_job fr (cfg_scoring cfg) ` set ?matched"
    by (simp only: score_jobs_def set_sorted_reverse set_map)
  then obtain m where m: "m \<in> set ?matched" and sm: "s = score_job fr (cfg_scoring cfg) m"
    by (rule imageE)
  from m have "m \<in> set (filter_jobs fr xs (exclude_list_of cfg request))"
    by (rule subsetD [OF set_and_mode])
  then have "m \<in> set xs"
    by (rule subsetD [OF set_filter_jobs])
  moreover have "sanitised m j"
    unfolding j sm by (rule sanitised_clean_job [OF same_source_score_job])
  ultimately show ?thesis by blast
qed

lemma sanitised_after: "same_source r m \<Longrightarrow> sanitised m j \<Longrightarrow> sanitised r j"
  by (simp add: same_source_def sanitised_def)

lemma scrape_usajobs_returned:
  "j \<in> set (scrape_usajobs cfg api term hours wanted is_remote location distance) \<Longrightarrow>
   returned_by scrape api j"
  by (auto simp: scrape_usajobs_def returned_by_def Let_def split: if_splits sum.splits)

lemma scrape_single_location_returned:
  "scrape_single_location cfg scrape term hours wanted is_remote location distance = Inr jobs
   \<Longrightarrow> j \<in> set jobs \<Longrightarrow> returned_by scrape api j"
  by (auto simp: scrape_single_location_def returned_by_def)

lemma validate_if_frame:
  assumes "validate_if fr is_remote jobs = Inr validated" "m \<in> set validated"
  shows "\<exists>r\<in>set jobs. same_source r m"
proof (cases is_remote)
  case True
  with assms(1) have "validate_remote_jobs fr default_salary_threshold jobs = Inr validated"
    by (simp add: validate_if_def)
  then show ?thesis using assms(2) by (rule same_source_validate_jobs)
next
  case False
  with assms have "m \<in> set jobs" by (simp add: validate_if_def)
  then show ?thesis using same_source_refl by (rule bexI [rotated])
qed

lemma get_jobs_frame:
  assumes "get_jobs_try cfg scrape api fr request = Inr response" "job \<in> set (rs_jobs response)"
  shows "\<exists>r. returned_by scrape api r \<and> sanitised r job"
proof -
  let ?remote = "rq_isRemote request = Some True"
  obtain hours_old where h: "parse_since_when (rq_sinceWhen request) = Inr hours_old"
    using assms(1) by (cases "parse_since_when (rq_sinceWhen request)")
      (simp_all add: get_jobs_try_def)
  let ?call = "scrape_single_location cfg scrape (search_term_of request) hours_old
           (rq_limit request) ?remote (rq_location request) (distance_or_50 (rq_distance request))"
  obtain scraped where sc: "?call = Inr scraped"
    using assms(1) h by (cases ?call) (simp_all add: get_jobs_try_def Let_def)
  let ?gov = "scrape_usajobs cfg api (search_term_of request) hours_old
                             (rq_limit request) ?remote (rq_location request)
                             (distance_or_50 (rq_distance request))"
  let ?jobs = "if usajobs_on cfg then scraped @ ?gov else scraped"
  obtain validated where va: "validate_if fr ?remote ?jobs = Inr validated"
    using assms(1) h sc by (cases "validate_if fr ?remote ?jobs")
      (simp_all add: get_jobs_try_def Let_def)
  have re: "rs_jobs response = finish_jobs cfg fr request validated"
    using assms(1) h sc va by (auto simp add: get_jobs_try_def Let_def)
  from assms(2) have "job \<in> set (finish_jobs cfg fr request validated)" by (simp add: re)
  from finish_jobs_frame [OF this] obtain m where m: "m \<in> set validated" "sanitised m job"
    by (rule bexE)
  from validate_if_frame [OF va m(1)] obtain r where r: "r \<in> set ?jobs" "same_source r m"
    by blast
  have "r \<in> set scraped \<or> r \<in> set ?gov" using r(1) by (auto split: if_splits)
  then have "returned_by scrape api r"
    using scrape_single_location_returned [OF sc] scrape_usajobs_returned by blast
  with r(2) m(2) sanitised_after show ?thesis by blast
qed

lemma search_location_frame:
  assumes "m \<in> set (search_location cfg scrape fr term hours loc)"
  shows "\<exists>r. returned_by scrape api r \<and> same_source r m"
proof -
  let ?remote = "get_or (loc_is_remote loc) False"
  let ?call = "scrape_single_location cfg scrape term hours (cfg_results_wanted cfg) ?remote
           (loc_location loc) (get_or (loc_distance loc) 50)"
  obtain scraped where sc: "?call = Inr scraped"
    using assms by (cases ?call) (simp_all add: search_location_def Let_def)
  obtain validated where va: "validate_if fr ?remote scraped = Inr validated"
    using assms sc by (cases "validate_if fr ?remote scraped")
      (simp_all add: search_location_def Let_def)
  have "m \<in> set (tag_jobs (get_or (loc_name loc) ''unknown'') validated)"
    using assms sc va by (simp add: search_location_def Let_def)
  then obtain v where v: "v \<in> set validated" "same_source v m"
    by (auto simp: tag_jobs_def same_source_tag)
  from validate_if_frame [OF va v(1)] obtain r where r: "r \<in> set scraped" "same_source r v"
    by blast
  from r(1) have "returned_by scrape api r" by (rule scrape_single_location_returned [OF sc])
  with r(2) v(2) same_source_trans show ?thesis by blast
qed

lemma search_location_usajobs_frame:
  assumes "m \<in> set (search_location_usajobs cfg api term hours loc)"
  shows "\<exists>r. returned_by scrape api r \<and> same_source r m"
proof -
  from assms obtain r where
    "r \<in> set (scrape_usajobs cfg api term hours (cfg_results_wanted cfg)
          (get_or (loc_is_remote loc) False) (loc_location loc)
          (get_or (loc_distance loc) 50))" "same_source r m"
    by (auto simp: search_location_usajobs_def tag_jobs_def same_source_tag)
  then show ?thesis using scrape_usajobs_returned by blast
qed

lemma merged_jobs_frame:
  assumes "m \<in> set (merged_jobs cfg scrape api fr term hours locations)"
  shows "\<exists>r. returned_by scrape api r \<and> same_source r m"
proof -
  from assms have
    "(\<exists>loc. m \<in> set (search_location cfg scrape fr term hours loc))
     \<or> (\<exists>loc. m \<in> set (search_location_usajobs cfg api term hours loc))"
    by (auto simp: merged_jobs_def split: if_splits)
  then show ?thesis
    using search_location_frame search_location_usajobs_frame by blast
qed

lemma search_all_frame:
  assumes "search_all_try cfg scrape api fr request = Inr response" "job \<in> set (rs_jobs response)"
  shows "\<exists>r. returned_by scrape api r \<and> sanitised r job"
proof -
  obtain hours_old where h: "parse_since_when (rq_sinceWhen request) = Inr hours_old"
    using assms(1) by (cases "parse_since_when (rq_sinceWhen request)")
      (simp_all add: search_all_try_def)
  let ?merged = "merged_jobs cfg scrape api fr (search_term_of request) hours_old
                       (locations_of cfg request)"
  have re: "rs_jobs response = finish_jobs cfg fr request (dedupe_jobs ?merged)"
    using assms(1) h by (auto simp add: search_all_try_def Let_def)
  from assms(2) have "job \<in> set (finish_jobs cfg fr request (dedupe_jobs ?merged))"
    by (simp add: re)
  from finish_jobs_frame [OF this] obtain m where
    m: "m \<in> set (dedupe_jobs ?merged)" "sanitised m job"
    by (rule bexE)
  from m(1) set_dedupe_loop have "m \<in> set ?merged"
    unfolding dedupe_jobs_def by blast
  from merged_jobs_frame [OF this] obtain r where "returned_by scrape api r" "same_source r m"
    by blast
  with m(2) sanitised_after show ?thesis by blast
qed

lemma clean_value_other:
  "(\<forall>i. v \<noteq> PFloat (FNaN i)) \<Longrightarrow> (\<forall>d. v \<noteq> PDatetime d) \<Longrightarrow> clean_value v = v"
  by (cases v rule: clean_value.cases) auto

lemma source_not_extension: "list_all (\<lambda>key. key \<notin> set extension_fields) source_fields"
  by (simp add: source_fields_def extension_fields_def)

lemma extension_underscore: "list_all (\<lambda>key. startswith key ''_'') extension_fields"
  by (simp add: extension_fields_def)

text \<open>
  Claim C4, amended. Every record of a response of either handler comes from a record
  that one of the two external calls returned. The only keys the pipeline writes are eight
  underscore-prefixed extension fields; under every other key, the ten source-provided
  fields (title, company, location, job_url, description, date_posted, min_amount,
  max_amount, interval, job_type) among them, the record holds what the returned record
  held, after sanitisation: a NaN float has become \<open>None\<close>, a datetime its ISO text,
  every other value is unchanged, and no key is added or removed.
\<close>

theorem source_fields_sanitised_only:
  "(job \<in> set (rs_jobs (http_body (get_jobs cfg scrape api fr request))) \<longrightarrow>
      (\<exists>r. returned_by scrape api r
           \<and> (\<forall>key. key \<notin> set extension_fields \<longrightarrow>
                 job key = map_option clean_value (r key))))
   \<and> (job \<in> set (rs_jobs (http_body (search_all cfg scrape api fr request))) \<longrightarrow>
      (\<exists>r. returned_by scrape api r
           \<and> (\<forall>key. key \<notin> set extension_fields \<longrightarrow>
                 job key = map_option clean_value (r key))))
   \<and> list_all (\<lambda>key. key \<notin> set extension_fields) source_fields
   \<and> list_all (\<lambda>key. startswith key ''_'') extension_fields
   \<and> ((\<forall>i. v \<noteq> PFloat (FNaN i)) \<and> (\<forall>d. v \<noteq> PDatetime d) \<longrightarrow> clean_value v = v)
   \<and> clean_value (PFloat (FNaN i)) = PNone
   \<and> clean_value (PDatetime d) = PStr (isoformat d)"
proof (intro conjI impI)
  assume a: "job \<in> set (rs_jobs (http_body (get_jobs cfg scrape api fr request)))"
  have "\<exists>r. returned_by scrape api r \<and> sanitised r job"
  proof (cases "get_jobs_try cfg scrape api fr request")
    case (Inl e)
    with a show ?thesis by (simp add: get_jobs_def error_response_def)
  next
    case (Inr response)
    with a have "job \<in> set (rs_jobs response)" by (simp add: get_jobs_def)
    with Inr show ?thesis by (rule get_jobs_frame)
  qed
  then show "\<exists>r. returned_by scrape api r
           \<and> (\<forall>key. key \<notin> set extension_fields \<longrightarrow>
                 job key = map_option clean_value (r key))"
    by (simp add: sanitised_def)
next
  assume a: "job \<in> set (rs_jobs (http_body (search_all cfg scrape api fr request)))"
  have "\<exists>r. returned_by scrape api r \<and> sanitised r job"
  proof (cases "search_all_try cfg scrape api fr request")
    case (Inl e)
    with a show ?thesis by (simp add: search_all_def error_response_def)
  next
    case (Inr response)
    with a have "job \<in> set (rs_jobs response)" by (simp add: search_all_def)
    with Inr show ?thesis by (rule search_all_frame)
  qed
  then show "\<exists>r. returned_by scrape api r
           \<and> (\<forall>key. key \<notin> set extension_fields \<longrightarrow>
                 job key = map_option clean_value (r key))"
    by (simp add: sanitised_def)
next
  show "list_all (\<lambda>key. key \<notin> set extension_fields) source_fields"
    by (rule source_not_extension)
next
  show "list_all (\<lambda>key. startswith key ''_'') extension_fields"
    by (rule extension_underscore)
next
  assume "(\<forall>i. v \<noteq> PFloat (FNaN i)) \<and> (\<forall>d. v \<noteq> PDatetime d)"
  then show "clean_value v = v" using clean_value_other by blast
qed simp_all

lemma score_job_source:
  "key \<in> set source_fields \<Longrightarrow> score_job fr scoring job key = job key"
  using same_source_score_job [of job fr scoring] source_not_extension
  by (simp add: same_source_def list_all_iff)

lemma nan_response:
  "http_body (get_jobs example_config nan_scrape no_api example_repr example_request)
     = \<lparr>rs_error = False,
        rs_jobs = [clean_job (score_job example_repr default_scoring nan_job)],
        rs_locations_searched = None\<rparr>"
  by (simp add: get_jobs_def get_jobs_try_def example_request_fields parse_example
      scrape_single_location_def nan_scrape_def example_config_def usajobs_on_def
      validate_if_def finish_jobs_def filter_jobs_def exclude_list_of_def and_mode_def
      score_jobs_def sorted_reverse_def clean_job_data_def py_take_def)

lemma posted_at_iso: "isoformat posted_at = ''2024-01-15T00:00:00''"
  by (simp add: isoformat_def iso_date_def iso_time_def pad_def dec.simps digit_char_def
      posted_at_def)

text \<open>
  The claim as written: a record returned with a NaN salary and a timestamp is in the
  response with \<open>min_amount\<close> \<open>None\<close> and \<open>date_posted\<close> a string.
\<close>

theorem source_fields_counterexample:
  "nan_job ''min_amount'' = Some (PFloat (FNaN 0))
   \<and> nan_job ''date_posted'' = Some (PDatetime posted_at)
   \<and> rs_jobs (http_body (get_jobs example_config nan_scrape no_api example_repr example_request))
       = [clean_job (score_job example_repr default_scoring nan_job)]
   \<and> clean_job (score_job example_repr default_scoring nan_job) ''min_amount'' = Some PNone
   \<and> clean_job (score_job example_repr default_scoring nan_job) ''date_posted''
       = Some (PStr ''2024-01-15T00:00:00'')"
  by (simp add: nan_response clean_job_def score_job_source source_fields_def posted_at_iso)
     (simp add: nan_job_def posted_at_iso)

theorem source_fields_sanitised_only_witness:
  "clean_job (score_job example_repr default_scoring nan_job)
     \<in> set (rs_jobs (http_body
           (get_jobs example_config nan_scrape no_api example_repr example_request)))
   \<and> (\<exists>r. returned_by nan_scrape no_api r
          \<and> (\<forall>key. key \<notin> set extension_fields \<longrightarrow>
                clean_job (score_job example_repr default_scoring nan_job) key
                  = map_option clean_value (r key)))
   \<and> clean_job (score_job example_repr default_scoring
         ((ny_job (PInt 120000))(''_location_name'' \<mapsto> PStr ''NYC'')))
     \<in> set (rs_jobs (http_body
           (search_all nyc_config ny_scrape no_api example_repr remote_request)))
   \<and> (\<exists>r. returned_by ny_scrape no_api r
          \<and> (\<forall>key. key \<notin> set extension_fields \<longrightarrow>
                clean_job (score_job example_repr default_scoring
                  ((ny_job (PInt 120000))(''_location_name'' \<mapsto> PStr ''NYC''))) key
                  = map_option clean_value (r key)))
   \<and> clean_value (PStr ''USA'') = PStr ''USA''"
  using source_fields_sanitised_only [of "clean_job (score_job example_repr default_scoring nan_job)"
          example_config nan_scrape no_api example_repr example_request "PStr ''USA''"]
        source_fields_sanitised_only [of "clean_job (score_job example_repr default_scoring
             ((ny_job (PInt 120000))(''_location_name'' \<mapsto> PStr ''NYC'')))"
          nyc_config ny_scrape no_api example_repr remote_request "PStr ''USA''"]
  by (simp add: nan_response nyc_response)

end
